theory Spec2Isabelle
  imports Complex_Main "HOL-Library.Sublist" "HOL-Library.Char_ord" "HOL-Library.List_Lexorder"
begin

section \<open>Text: Python strings over the Latin-1 block\<close>

text \<open>
  A Python \<open>str\<close> is a sequence of code points. The model represents a text as a
  \<^typ>\<open>string\<close> whose characters are the code points U+0000 to U+00FF (the Latin-1
  block, which holds every letter the source names: \<open>a\<close> to \<open>z\<close>, the accented vowels,
  \<open>n\<close> with tilde and \<open>u\<close> with diaeresis). \<open>length\<close> therefore counts code points, as
  Python's \<open>len\<close> does. Code points above U+00FF are outside the model.

  The character classes below are the ones Python 3 uses for \<open>str\<close> on this block:
  \<open>str.isspace\<close> and the regular expression class \<open>\s\<close> agree (\<open>is_space\<close>), \<open>\w\<close> is
  \<open>str.isalnum\<close> or the underscore (\<open>is_word\<close>), and \<open>str.lower\<close> moves the upper-case
  letters 32 places up (\<open>lower_char\<close>).
\<close>

definition codigo :: "char \<Rightarrow> nat" where
  "codigo c = of_char c"

definition is_space :: "char \<Rightarrow> bool" where
  "is_space c = (let n = codigo c in
     (9 \<le> n \<and> n \<le> 13) \<or> (28 \<le> n \<and> n \<le> 32) \<or> n = 133 \<or> n = 160)"

definition is_word :: "char \<Rightarrow> bool" where
  "is_word c = (let n = codigo c in
     (48 \<le> n \<and> n \<le> 57) \<or> (65 \<le> n \<and> n \<le> 90) \<or> n = 95 \<or> (97 \<le> n \<and> n \<le> 122) \<or>
     n = 170 \<or> n = 178 \<or> n = 179 \<or> n = 181 \<or> n = 185 \<or> n = 186 \<or>
     (188 \<le> n \<and> n \<le> 190) \<or> (192 \<le> n \<and> n \<le> 214) \<or> (216 \<le> n \<and> n \<le> 246) \<or>
     (248 \<le> n \<and> n \<le> 255))"

definition is_upper :: "char \<Rightarrow> bool" where
  "is_upper c = (let n = codigo c in
     (65 \<le> n \<and> n \<le> 90) \<or> (192 \<le> n \<and> n \<le> 214) \<or> (216 \<le> n \<and> n \<le> 222))"

definition lower_char :: "char \<Rightarrow> char" where
  "lower_char c = (if is_upper c then char_of (codigo c + 32) else c)"

text \<open>\<open>texto.lower()\<close>\<close>

definition py_lower :: "string \<Rightarrow> string" where
  "py_lower s = map lower_char s"

text \<open>\<open>texto.strip()\<close>: leading and trailing white space removed.\<close>

definition py_strip :: "string \<Rightarrow> string" where
  "py_strip s = rev (dropWhile is_space (rev (dropWhile is_space s)))"

text \<open>
  \<open>re.sub(r'[^\w\s...]', ' ', texto)\<close>, the dots standing for the seven accented letters
  listed in the source (U+00E1, U+00E9, U+00ED, U+00F3, U+00FA, U+00F1, U+00FC): every
  character outside the class becomes one blank.
\<close>

definition letras_acentuadas :: "char list" where
  "letras_acentuadas = [CHR 0xE1, CHR 0xE9, CHR 0xED, CHR 0xF3, CHR 0xFA, CHR 0xF1, CHR 0xFC]"

definition sub_no_permitidos :: "string \<Rightarrow> string" where
  "sub_no_permitidos s =
     map (\<lambda>c. if is_word c \<or> is_space c \<or> c \<in> set letras_acentuadas then c else CHR '' '') s"

text \<open>
  \<open>re.sub(r'\s+', ' ', texto)\<close>: every maximal run of white space becomes one blank.
\<close>

function sub_espacios :: "string \<Rightarrow> string" where
  "sub_espacios [] = []"
| "sub_espacios (c # cs) =
     (if is_space c then CHR '' '' # sub_espacios (dropWhile is_space cs)
      else c # sub_espacios cs)"
  by pat_completeness auto
termination
  by (relation "measure length") (auto simp: length_dropWhile_le less_Suc_eq_le)

text \<open>
  A cell of a text column: a string, the missing value (\<open>NaN\<close>) that \<open>pd.notna\<close>
  reports, or a value that is neither (\<open>NoTexto\<close>: a number or a Boolean, which
  \<open>pd.read_csv\<close> puts in a column that holds nothing else). \<open>isinstance(texto, str)\<close>
  accepts the first only.
\<close>

datatype cell = Str string | NaN | NoTexto

fun limpiar_texto :: "cell \<Rightarrow> string" where
  "limpiar_texto NaN = []"
| "limpiar_texto NoTexto = []"
| "limpiar_texto (Str texto) =
     (let texto = py_strip (py_lower texto);
          texto = sub_no_permitidos texto;
          texto = py_strip (sub_espacios texto)
      in texto)"

text \<open>
  The shape of a normalised text, used in the proofs: a white-space character is a
  blank and is never followed by another one.
\<close>

fun no_doble :: "string \<Rightarrow> bool" where
  "no_doble [] = True"
| "no_doble [c] = (is_space c \<longrightarrow> c = CHR '' '')"
| "no_doble (c # d # r) =
     ((is_space c \<longrightarrow> c = CHR '' '' \<and> \<not> is_space d) \<and> no_doble (d # r))"


section \<open>Data model\<close>

text \<open>
  One row of the uploaded table (\<open>utils.py\<close> and \<open>data_loader.py\<close> read it through
  these labels). \<open>user_utterances\<close> and \<open>intent_name\<close> are text cells that may be
  missing; \<open>turn_position\<close> is an integer and \<open>conversation_name\<close> a text. The two flags
  are the optional Boolean columns of the aggregator. \<open>pregunta_limpia\<close> is the column the
  load computes; what an uploaded file holds there is overwritten.
\<close>

record fila =
  user_utterances :: cell
  conversation_name :: string
  turn_position :: int
  intent_name :: cell
  live_agent_handoff :: bool
  end_session_exit :: bool
  pregunta_limpia :: string

text \<open>A row of the enriched dataset: the three columns the classifier adds.\<close>

record fila_clasificada = fila +
  categoria :: string
  subcategoria :: string
  confidence :: rat

text \<open>
  A pandas \<open>DataFrame\<close>: the column labels and the rows. The labels are read where
  the source reads them (\<open>in df.columns\<close>, \<open>in row\<close>, the check of the required columns);
  a value in a column that is not among the labels is never read. A row handed to
  \<open>clasificar_consulta\<close> by \<open>apply(..., axis=1)\<close> is a \<open>Series\<close>: the labels of the table
  together with the values of the row.
\<close>

record 'r dataframe =
  columns :: "string list"
  rows :: "'r list"

type_synonym 'r serie = "string list \<times> 'r"

text \<open>
  What stops a computation: the missing required columns of the load (\<open>st.stop()\<close>),
  the exceptions of Python and pandas that the modelled code can raise (a division by
  zero, a label that a row or a table does not have, a method that a value does not
  have), and the early return of \<open>main\<close> on an empty enriched dataset.
\<close>

datatype error =
  ColumnasFaltantes "string list" | ZeroDivisionError | KeyError | AttributeError | SinDatosValidos

text \<open>\<open>s.replace(old, new)\<close> for one-character arguments.\<close>

definition py_replace :: "char \<Rightarrow> char \<Rightarrow> string \<Rightarrow> string" where
  "py_replace old new s = map (\<lambda>c. if c = old then new else c) s"

text \<open>
  \<open>s.title()\<close>: a character that follows a cased character is lower-cased, any other
  character is title-cased. On the Latin-1 block the title-case form of a lower-case
  letter is the letter 32 places down, and the sharp s (U+00DF) becomes \<open>Ss\<close>. Two letters
  of the block, U+00B5 and U+00FF, have their title-case forms outside of it (U+039C and
  U+0178); \<open>title_char\<close> leaves these two unchanged, which is the one place where the
  block is not closed under the operations of the source.
\<close>

definition is_cased :: "char \<Rightarrow> bool" where
  "is_cased c = (let n = codigo c in
     (65 \<le> n \<and> n \<le> 90) \<or> (97 \<le> n \<and> n \<le> 122) \<or> n = 170 \<or> n = 181 \<or> n = 186 \<or>
     (192 \<le> n \<and> n \<le> 214) \<or> (216 \<le> n \<and> n \<le> 246) \<or> (248 \<le> n \<and> n \<le> 255))"

definition title_char :: "char \<Rightarrow> string" where
  "title_char c = (let n = codigo c in
     if (97 \<le> n \<and> n \<le> 122) \<or> (224 \<le> n \<and> n \<le> 246) \<or> (248 \<le> n \<and> n \<le> 254)
     then [char_of (n - 32)]
     else if n = 223 then ''Ss''
     else [c])"

fun title_desde :: "bool \<Rightarrow> string \<Rightarrow> string" where
  "title_desde previous_is_cased [] = []"
| "title_desde previous_is_cased (c # cs) =
     (if previous_is_cased then [lower_char c] else title_char c) @ title_desde (is_cased c) cs"

definition py_title :: "string \<Rightarrow> string" where
  "py_title s = title_desde False s"

text \<open>
  The taxonomy. A Python \<open>dict\<close> iterates in insertion order and its keys are distinct,
  so the nested dictionary is a list of pairs in the order of the source. Letters
  outside ASCII are written by their code points.
\<close>

definition CATEGORIAS_SUBCATEGORIAS :: "(string \<times> (string \<times> string list) list) list" where
  "CATEGORIAS_SUBCATEGORIAS = [
    (''Gesti'' @ [CHR 0xF3] @ ''n de Pedidos'',
      [
       (''Rastreo y Estatus'',
        [''pedido'', ''rastrear'', ''estatus'', ''guia'', ''donde viene'', ''llegado'', ''seguimiento'', ''envio'', ''paquete'']),
       (''Modificaci'' @ [CHR 0xF3] @ ''n y Cancelaci'' @ [CHR 0xF3] @ ''n'',
        [''cambiar'', ''modificar'', ''cancelar'', ''direcci'' @ [CHR 0xF3] @ ''n'', ''devolver'', ''reembolso'']),
       (''Problemas con Pedido'',
        [''incompleto'', ''da'' @ [CHR 0xF1] @ ''ado'', ''equivocado'', ''problema'', ''falta'', ''error'', ''mal estado''])
      ]),
    (''Purificadores - Info General'',
      [
       (''Comparativa de Modelos'',
        [''diferencia'', ''comparar'', ''cual elegir'', ''modelos'', ''tipos'', ''mejor'', ''versus'', ''vs'']),
       (''Beneficios y Caracter'' @ [CHR 0xED] @ ''sticas'',
        [''beneficios'', ''ventajas'', ''por que comprar'', ''para que sirve'', ''ahorro'', ''salud'', ''caracteristicas'', ''especificaciones''])
      ]),
    (''Purificador ALX1'',
      [
       (''Funcionalidad ALX1'',
        [''alx1'', ''alta demanda'', ''conecta'', ''directo'', ''presion'', ''flujo continuo'']),
       (''App y Monitoreo'',
        [''app'', ''aplicacion'', ''monitorear'', ''calidad'', ''consumo'', ''cartuchos'', ''notificaciones'']),
       (''Instalaci'' @ [CHR 0xF3] @ ''n ALX1'',
        [''instalar alx1'', ''conexion'', ''toma de agua'', ''bajo tarja'', ''llave de paso''])
      ]),
    (''Purificador ALX2'',
      [
       (''Funcionalidad ALX2'',
        [''alx2'', ''portatil'', ''contenedor'', ''llenar'', ''6 litros'', ''tanque'', ''deposito'']),
       (''Agua Alcalina'',
        [''alcalina'', ''ph'', ''alcalinidad'', ''minerales'', ''ionizada'']),
       (''Control de Temperatura'',
        [''temperatura'', ''frio'', ''caliente'', ''4 grados'', ''100 grados''])
      ]),
    (''Tecnolog'' @ [CHR 0xED] @ ''a y Filtraci'' @ [CHR 0xF3] @ ''n'',
      [
       (''Osmosis Inversa'',
        [''osmosis'', ''inversa'', ''ro'', ''membrana'', ''sales'', ''minerales disueltos'']),
       (''Cartuchos y Filtros'',
        [''cartucho'', ''filtro'', ''sedimentos'', ''carbon'', ''vida util'', ''cambio'', ''repuesto'']),
       (''Calidad del Agua'',
        [''purificada'', ''segura'', ''impurezas'', ''bacterias'', ''cloro'', ''sabor'', ''olor''])
      ]),
    (''Mantenimiento y Soporte'',
      [
       (''Cambio de Filtros'',
        [''cambiar filtro'', ''reemplazar cartucho'', ''mantenimiento'', ''cuando cambiar'', ''frecuencia'']),
       (''Instalaci'' @ [CHR 0xF3] @ ''n General'',
        [''instalar'', ''instalacion'', ''bajo fregadero'', ''conexion'', ''plomero'', ''tutorial'']),
       (''Garant'' @ [CHR 0xED] @ ''as y Soporte'',
        [''garantia'', ''devolucion'', ''reparacion'', ''soporte'', ''servicio tecnico'', ''falla''])
      ]),
    (''Interacciones Generales'',
      [
       (''Saludos y Cortes'' @ [CHR 0xED] @ ''a'',
        [''hola'', ''buenos dias'', ''buenas tardes'', ''gracias'', ''adios'', ''buenas noches'']),
       (''Consultas de Cuenta'',
        [''mi cuenta'', ''contrase'' @ [CHR 0xF1] @ ''a'', ''datos personales'', ''perfil'', ''usuario'', ''registro''])
      ]),
    (''Sin Clasificar'',
      [
       (''Otros'',
        [''otros'', ''miscelaneos'', ''sin categoria''])
      ])
  ]"

definition SALUDOS_BASICOS :: "string list" where
  "SALUDOS_BASICOS = [''hola'', ''buenos dias'', ''buenas tardes'', ''buenas noches'', ''gracias'', ''adios'', ''si'', ''no'', ''ok'', ''aja'', ''bien'', ''perfecto'', ''excelente'', ''de acuerdo'', ''entendido'', ''claro'', ''por favor'', ''disculpa'']"

definition PALABRAS_RUIDO :: "string list" where
  "PALABRAS_RUIDO = ['''', ''si'', ''no'', ''ok'', ''a'', ''e'', ''o'', ''de'', ''la'', ''el'', ''mi'', ''que'', ''es'', ''un'', ''una'', ''los'', ''las'', ''y'', ''en'', ''con'', ''para'', ''por'']"


text \<open>
  A classification is (category, subcategory, confidence). The confidence is a Python
  float in the source: the quotient of two small natural numbers, or one of the literals
  \<open>0.9\<close> and \<open>0.0\<close>. The model keeps the exact rational. Float division rounds the exact
  quotient to the nearest float, which is monotone, and two different quotients with
  denominators below 10 are further apart than any rounding error, so comparing the
  rationals decides \<open>score > mejor_score\<close> as comparing the floats does.

  \<open>estado\<close> is the pair of loop variables (\<open>mejor_match\<close>, \<open>mejor_score\<close>).
\<close>

type_synonym clasificacion = "string \<times> string \<times> rat"

type_synonym estado = "clasificacion option \<times> rat"

text \<open>
  The body of the inner loop. \<open>keyword in pregunta\<close> is \<^const>\<open>sublist\<close>. The division
  raises when the keyword list is empty; it is only reached when some keyword matched.
\<close>

definition evaluar_subcategoria ::
  "string \<Rightarrow> string \<Rightarrow> string \<times> string list \<Rightarrow> estado \<Rightarrow> error + estado" where
  "evaluar_subcategoria pregunta categoria_k sk e =
     (case sk of (subcategoria_k, keywords) \<Rightarrow>
      case e of (mejor_match, mejor_score) \<Rightarrow>
        let matches = length (filter (\<lambda>keyword. sublist keyword pregunta) keywords) in
        if matches > 0 then
          (if length keywords = 0 then Inl ZeroDivisionError
           else
             let score = of_nat matches / of_nat (length keywords) in
             if score > mejor_score then Inr (Some (categoria_k, subcategoria_k, score), score)
             else Inr (mejor_match, mejor_score))
        else Inr (mejor_match, mejor_score))"

fun bucle_subcategorias ::
  "string \<Rightarrow> string \<Rightarrow> (string \<times> string list) list \<Rightarrow> estado \<Rightarrow> error + estado" where
  "bucle_subcategorias pregunta categoria_k [] e = Inr e"
| "bucle_subcategorias pregunta categoria_k (sk # resto) e =
     (case evaluar_subcategoria pregunta categoria_k sk e of
        Inl err \<Rightarrow> Inl err
      | Inr e' \<Rightarrow> bucle_subcategorias pregunta categoria_k resto e')"

fun bucle_categorias ::
  "string \<Rightarrow> (string \<times> (string \<times> string list) list) list \<Rightarrow> estado \<Rightarrow> error + estado" where
  "bucle_categorias pregunta [] e = Inr e"
| "bucle_categorias pregunta ((categoria_k, subcategorias) # resto) e =
     (case bucle_subcategorias pregunta categoria_k subcategorias e of
        Inl err \<Rightarrow> Inl err
      | Inr e' \<Rightarrow> bucle_categorias pregunta resto e')"

text \<open>
  The guard of the intent branch: the label is present, the value is not missing, and
  it is none of the three sentinel texts. The result is the cell that passes the guard.
  A cell that is not a text passes it: it is not missing and equals none of the
  sentinels.
\<close>

definition intent_nativo :: "'a fila_scheme serie \<Rightarrow> cell option" where
  "intent_nativo row =
     (case row of (index, v) \<Rightarrow>
        if ''intent_name'' \<in> set index then
          (case intent_name v of
             NaN \<Rightarrow> None
           | NoTexto \<Rightarrow> Some NoTexto
           | Str i \<Rightarrow>
               if i \<notin> set [''UNSPECIFIED'', '''', ''Default Welcome Intent'']
               then Some (Str i) else None)
        else None)"

text \<open>
  \<open>row.get('pregunta_limpia', limpiar_texto(row['user_utterances']))\<close>. Python evaluates
  the default before the call, so a row without the label \<open>user_utterances\<close> raises
  \<open>KeyError\<close>, whether or not it has the label \<open>pregunta_limpia\<close>.
\<close>

definition pregunta_de :: "'a fila_scheme serie \<Rightarrow> error + string" where
  "pregunta_de row =
     (if ''user_utterances'' \<notin> set (fst row) then Inl KeyError
      else if ''pregunta_limpia'' \<in> set (fst row) then Inr (pregunta_limpia (snd row))
      else Inr (limpiar_texto (user_utterances (snd row))))"

text \<open>
  In the intent branch \<open>.replace\<close> is a method of texts only: on any other cell that
  passed the guard Python raises \<open>AttributeError\<close>.
\<close>

definition clasificar_consulta :: "'a fila_scheme serie \<Rightarrow> error + clasificacion" where
  "clasificar_consulta row =
     (case intent_nativo row of
        Some (Str i) \<Rightarrow>
          Inr (py_title (py_replace (CHR ''_'') (CHR '' '') i), ''Por Intent'', 9 / 10)
      | Some _ \<Rightarrow> Inl AttributeError
      | None \<Rightarrow>
          (case pregunta_de row of
             Inl err \<Rightarrow> Inl err
           | Inr pregunta \<Rightarrow>
               (case bucle_categorias pregunta CATEGORIAS_SUBCATEGORIAS (None, 0) of
                  Inl err \<Rightarrow> Inl err
                | Inr (mejor_match, mejor_score) \<Rightarrow>
                    (case mejor_match of
                       Some m \<Rightarrow> Inr m
                     | None \<Rightarrow> Inr (''Sin Clasificar'', ''Otros'', 0)))))"


section \<open>Dataset pipeline\<close>

text \<open>
  \<open>cargar_y_procesar_datos\<close> starts here from the table that \<open>pd.read_csv\<close> returns;
  decoding the file is outside the model.
\<close>

definition columnas_requeridas :: "string list" where
  "columnas_requeridas = [''user_utterances'', ''conversation_name'', ''turn_position'']"

text \<open>\<open>df[col] = ...\<close> on the labels: a new label goes last, an old one stays in place.\<close>

definition asignar_columna :: "string \<Rightarrow> string list \<Rightarrow> string list" where
  "asignar_columna col cols = (if col \<in> set cols then cols else cols @ [col])"

text \<open>The mask of the noise filter: not in \<open>PALABRAS_RUIDO\<close> and longer than 2.\<close>

definition no_es_ruido :: "'a fila_scheme \<Rightarrow> bool" where
  "no_es_ruido r = (pregunta_limpia r \<notin> set PALABRAS_RUIDO \<and> length (pregunta_limpia r) > 2)"

text \<open>
  \<open>df_limpio.apply(clasificar_consulta, axis=1)\<close> and the assignment of the three new
  columns; an error in one row is the error of the whole load.
\<close>

fun clasificar_filas :: "string list \<Rightarrow> fila list \<Rightarrow> error + fila_clasificada list" where
  "clasificar_filas cols [] = Inr []"
| "clasificar_filas cols (r # rs) =
     (case clasificar_consulta (cols, r) of
        Inl err \<Rightarrow> Inl err
      | Inr (c, s, k) \<Rightarrow>
          (case clasificar_filas cols rs of
             Inl err \<Rightarrow> Inl err
           | Inr rs' \<Rightarrow>
               Inr (fila.extend r (fila_clasificada.fields c s k) # rs')))"

text \<open>
  When no row is left after the noise filter, \<open>df_limpio.apply(..., axis=1)\<close> has no row
  to classify and returns a \<open>DataFrame\<close> instead of a \<open>Series\<close>; a \<open>DataFrame\<close> has no
  method \<open>tolist\<close>, and the load raises \<open>AttributeError\<close> before it returns.
\<close>

definition cargar_y_procesar_datos ::
  "fila dataframe \<Rightarrow> error + (fila dataframe \<times> fila_clasificada dataframe)" where
  "cargar_y_procesar_datos leido =
     (let columnas_faltantes = filter (\<lambda>col. col \<notin> set (columns leido)) columnas_requeridas in
      if columnas_faltantes \<noteq> [] then Inl (ColumnasFaltantes columnas_faltantes)
      else
        let df = \<lparr>columns = asignar_columna ''pregunta_limpia'' (columns leido),
                  rows = map (\<lambda>r. r\<lparr>pregunta_limpia := limpiar_texto (user_utterances r)\<rparr>)
                           (rows leido)\<rparr>;
            limpias = filter no_es_ruido (rows df)
        in
          if limpias = [] then Inl AttributeError
          else
            case clasificar_filas (columns df) limpias of
              Inl err \<Rightarrow> Inl err
            | Inr clasificadas \<Rightarrow>
                Inr (df,
                     \<lparr>columns =
                        asignar_columna ''confidence''
                          (asignar_columna ''subcategoria''
                            (asignar_columna ''categoria'' (columns df))),
                      rows = clasificadas\<rparr>))"

section \<open>Metrics aggregator\<close>

text \<open>\<open>df.groupby('conversation_name')\<close>: one group per name, the names in sorted order.\<close>

definition grupos :: "'a fila_scheme list \<Rightarrow> (string \<times> 'a fila_scheme list) list" where
  "grupos filas =
     map (\<lambda>k. (k, filter (\<lambda>r. conversation_name r = k) filas))
       (sort (remdups (map conversation_name filas)))"

text \<open>The greatest element of a list, if there is one.\<close>

fun maximo :: "int list \<Rightarrow> int option" where
  "maximo [] = None"
| "maximo (x # xs) = Some (fold max xs x)"

definition max_turnos_por_conversacion :: "'a fila_scheme list \<Rightarrow> (string \<times> int option) list" where
  "max_turnos_por_conversacion filas =
     map (\<lambda>(k, g). (k, maximo (map turn_position g))) (grupos filas)"

text \<open>
  Mean and median of the per-conversation maxima, as exact rationals; pandas returns a
  missing value on an empty series (\<open>None\<close>).
\<close>

definition mean :: "int list \<Rightarrow> rat option" where
  "mean xs = (if xs = [] then None else Some (of_int (sum_list xs) / of_nat (length xs)))"

definition median :: "int list \<Rightarrow> rat option" where
  "median xs =
     (let s = sort xs; n = length s in
      if n = 0 then None
      else if n mod 2 = 1 then Some (of_int (s ! (n div 2)))
      else Some ((of_int (s ! (n div 2 - 1)) + of_int (s ! (n div 2))) / 2))"

text \<open>
  The dictionary the aggregator returns. \<open>conversaciones_df\<close> has one row per
  conversation: its name, its greatest turn and the number of its utterances that are
  not missing.
\<close>

record metricas =
  total_conversaciones :: nat
  total_interacciones :: nat
  turnos_promedio :: "rat option"
  turnos_mediana :: "rat option"
  escalamientos :: nat
  finalizaciones :: nat
  conversaciones_largas :: nat
  conversaciones_df :: "(string \<times> int option \<times> nat) list"

text \<open>\<open>df.empty\<close>: no row, or no column.\<close>

definition df_empty :: "'r dataframe \<Rightarrow> bool" where
  "df_empty df = (rows df = [] \<or> columns df = [])"

definition calcular_metricas_conversacion :: "'a fila_scheme dataframe \<Rightarrow> metricas option" where
  "calcular_metricas_conversacion df =
     (if df_empty df then None
      else
        let conversaciones =
              map (\<lambda>(k, g). (k, maximo (map turn_position g),
                              length (filter (\<lambda>r. user_utterances r \<noteq> NaN) g)))
                (grupos (rows df));
            escalamientos_v =
              (if ''live_agent_handoff'' \<in> set (columns df)
               then length (filter (\<lambda>(k, g). list_ex live_agent_handoff g) (grupos (rows df)))
               else 0);
            finalizaciones_v =
              (if ''end_session_exit'' \<in> set (columns df)
               then length (filter (\<lambda>(k, g). list_ex end_session_exit g) (grupos (rows df)))
               else 0);
            max_turnos = List.map_filter (\<lambda>(k, m, n). m) conversaciones
        in Some \<lparr>total_conversaciones = length conversaciones,
                 total_interacciones = length (rows df),
                 turnos_promedio = mean max_turnos,
                 turnos_mediana = median max_turnos,
                 escalamientos = escalamientos_v,
                 finalizaciones = finalizaciones_v,
                 conversaciones_largas = length (filter (\<lambda>m. m > 10) max_turnos),
                 conversaciones_df = conversaciones\<rparr>)"

section \<open>Query and filter layer\<close>

text \<open>
  The default arguments of the source (\<open>Todas\<close>, \<open>Todas\<close>, 1) are written out by the
  caller. The conversations are selected on \<open>df\<close>, the argument, not on the rows left by
  the category filters.
\<close>

definition aplicar_filtros ::
  "fila_clasificada dataframe \<Rightarrow> string \<Rightarrow> string \<Rightarrow> int \<Rightarrow> fila_clasificada dataframe" where
  "aplicar_filtros df categoria_sel subcategoria_sel turnos_min =
     (let df_filtrado = rows df;
          df_filtrado =
            (if categoria_sel \<noteq> ''Todas''
             then filter (\<lambda>r. categoria r = categoria_sel) df_filtrado else df_filtrado);
          df_filtrado =
            (if subcategoria_sel \<noteq> ''Todas''
             then filter (\<lambda>r. subcategoria r = subcategoria_sel) df_filtrado else df_filtrado);
          conversaciones_validas =
            map fst (filter (\<lambda>(k, m). case m of None \<Rightarrow> False | Some t \<Rightarrow> t \<ge> turnos_min)
                       (max_turnos_por_conversacion (rows df)))
      in df\<lparr>rows := filter (\<lambda>r. conversation_name r \<in> set conversaciones_validas) df_filtrado\<rparr>)"


text \<open>\<open>texto_limpio.split()\<close>: the maximal runs of characters that are not white space.\<close>

fun split_desde :: "string \<Rightarrow> string \<Rightarrow> string list" where
  "split_desde palabra [] = (if palabra = [] then [] else [rev palabra])"
| "split_desde palabra (c # cs) =
     (if is_space c
      then (if palabra = [] then split_desde [] cs else rev palabra # split_desde [] cs)
      else split_desde (c # palabra) cs)"

definition py_split :: "string \<Rightarrow> string list" where
  "py_split s = split_desde [] s"

text \<open>
  \<open>palabras\<close> is a set in the source; the list without repetitions has its elements and
  its size.
\<close>

definition es_saludo_basico :: "cell \<Rightarrow> bool" where
  "es_saludo_basico texto =
     (let texto_limpio = limpiar_texto texto;
          palabras = remdups (py_split texto_limpio)
      in length (filter (\<lambda>w. w \<in> set SALUDOS_BASICOS) palabras) > 0 \<and> length palabras \<le> 3)"

text \<open>
  Modelled from the spec: \<open>Series.value_counts\<close> is a function of pandas, not of this
  repository. It is modelled as the specification describes the ranking: the distinct
  values in the order of their first appearance (\<open>primeras\<close>), each with the number of its
  occurrences, sorted by descending count with a stable sort, so that values with the
  same count stay in first-appearance order.
\<close>

primrec primeras :: "'a list \<Rightarrow> 'a list" where
  "primeras [] = []"
| "primeras (x # xs) = x # filter (\<lambda>y. y \<noteq> x) (primeras xs)"

definition value_counts :: "string list \<Rightarrow> (string \<times> nat) list" where
  "value_counts xs =
     sort_key (\<lambda>(v, n). - int n) (map (\<lambda>v. (v, count_list xs v)) (primeras xs))"

text \<open>\<open>s.head(n)\<close>: the first \<open>n\<close> entries, or all but the last \<open>-n\<close> when \<open>n\<close> is negative.\<close>

definition py_head :: "int \<Rightarrow> 'a list \<Rightarrow> 'a list" where
  "py_head n xs = (if n \<ge> 0 then take (nat n) xs else take (length xs - nat (- n)) xs)"

text \<open>
  The rows \<open>df_faqs\<close> that the ranking counts, after the optional greeting filters. On a
  dataset without rows the mask of the first filter is an empty series that is not
  Boolean; indexing with it selects no column, and reading the column \<open>categoria\<close> for
  the second filter raises \<open>KeyError\<close>.
\<close>

definition filas_faqs ::
  "fila_clasificada dataframe \<Rightarrow> bool \<Rightarrow> error + fila_clasificada list" where
  "filas_faqs df filtrar_saludos =
     (let df_faqs = rows df in
      if filtrar_saludos
      then (if df_faqs = [] then Inl KeyError
            else Inr (filter (\<lambda>r. categoria r \<noteq> ''Interacciones Generales'')
                        (filter (\<lambda>r. \<not> es_saludo_basico (Str (pregunta_limpia r))) df_faqs)))
      else Inr df_faqs)"

text \<open>
  The result is the table of the source as a list of (index, \<open>Pregunta\<close>, \<open>Frecuencia\<close>),
  the index running from 1; the empty \<open>DataFrame\<close> is the empty list.
\<close>

definition obtener_top_preguntas ::
  "fila_clasificada dataframe \<Rightarrow> int \<Rightarrow> bool \<Rightarrow> error + (nat \<times> string \<times> nat) list" where
  "obtener_top_preguntas df n filtrar_saludos =
     (case filas_faqs df filtrar_saludos of
        Inl err \<Rightarrow> Inl err
      | Inr df_faqs \<Rightarrow>
          let top_questions = py_head n (value_counts (map pregunta_limpia df_faqs))
          in if length top_questions > 0
             then Inr (zip [1 ..< length top_questions + 1] top_questions)
             else Inr [])"


section \<open>The classifier, as the specification words it\<close>

text \<open>
  The taxonomy as one list of (category, subcategory, keywords) in iteration order, the
  number of keywords of an entry found in a text, the scored entries (those with a match,
  with their score), and the scan that keeps the first entry of greatest score.
\<close>

definition ternas ::
  "(string \<times> (string \<times> string list) list) list \<Rightarrow> (string \<times> string \<times> string list) list" where
  "ternas tax = concat (map (\<lambda>(c, subs). map (\<lambda>(s, ks). (c, s, ks)) subs) tax)"

definition coincidencias :: "string \<Rightarrow> string list \<Rightarrow> nat" where
  "coincidencias pregunta keywords = length (filter (\<lambda>k. sublist k pregunta) keywords)"

definition puntuadas :: "string \<Rightarrow> (string \<times> string \<times> string list) list \<Rightarrow> clasificacion list" where
  "puntuadas pregunta ts =
     map (\<lambda>(c, s, ks). (c, s, of_nat (coincidencias pregunta ks) / of_nat (length ks)))
       (filter (\<lambda>(c, s, ks). coincidencias pregunta ks > 0) ts)"

definition puntuacion :: "clasificacion \<Rightarrow> rat" where
  "puntuacion t = snd (snd t)"

fun mejor_desde :: "clasificacion list \<Rightarrow> estado \<Rightarrow> estado" where
  "mejor_desde [] e = e"
| "mejor_desde (t # ts) e =
     (if puntuacion t > snd e then mejor_desde ts (Some t, puntuacion t) else mejor_desde ts e)"


section \<open>Example records\<close>

definition fila_ejemplo :: "string \<Rightarrow> int \<Rightarrow> cell \<Rightarrow> cell \<Rightarrow> fila" where
  "fila_ejemplo conversacion turno texto intent =
     \<lparr>user_utterances = texto, conversation_name = conversacion, turn_position = turno,
      intent_name = intent, live_agent_handoff = False, end_session_exit = False,
      pregunta_limpia = []\<rparr>"

definition serie_alx1 :: "fila serie" where
  "serie_alx1 =
     ([''user_utterances'', ''conversation_name'', ''turn_position''],
      fila_ejemplo ''A'' 1 (Str ''necesito cambiar el filtro de mi ALX1'') NaN)"

definition serie_otros :: "fila serie" where
  "serie_otros =
     ([''user_utterances'', ''conversation_name'', ''turn_position''],
      fila_ejemplo ''A'' 1 (Str ''Otros'') NaN)"

definition serie_sin_palabras :: "fila serie" where
  "serie_sin_palabras =
     ([''user_utterances'', ''conversation_name'', ''turn_position'', ''intent_name''],
      fila_ejemplo ''A'' 1 (Str ''Tengo una pregunta!'') (Str ''UNSPECIFIED''))"

definition serie_con_saludo :: "fila serie" where
  "serie_con_saludo =
     ([''user_utterances'', ''conversation_name'', ''turn_position'', ''pregunta_limpia''],
      (fila_ejemplo ''A'' 1 (Str ''Hola, gracias. Quiero rastrear mi pedido'') NaN)
        \<lparr>pregunta_limpia := ''hola gracias quiero rastrear mi pedido''\<rparr>)"

definition serie_saludo_sin_limpia :: "fila serie" where
  "serie_saludo_sin_limpia =
     ([''user_utterances'', ''conversation_name'', ''turn_position''],
      fila_ejemplo ''A'' 1 (Str ''Hola, gracias. Quiero rastrear mi pedido'') NaN)"

definition serie_sin_utterances :: "fila serie" where
  "serie_sin_utterances =
     ([''conversation_name'', ''turn_position''], fila_ejemplo ''A'' 1 NaN NaN)"

definition serie_intent_numerico :: "fila serie" where
  "serie_intent_numerico =
     ([''user_utterances'', ''conversation_name'', ''turn_position'', ''intent_name''],
      fila_ejemplo ''A'' 1 (Str ''Quiero rastrear mi pedido'') NoTexto)"

definition puntuadas_saludo :: "clasificacion list" where
  "puntuadas_saludo =
     [(''Gesti'' @ [CHR 0xF3] @ ''n de Pedidos'', ''Rastreo y Estatus'', 2 / 9),
      (''Tecnolog'' @ [CHR 0xED] @ ''a y Filtraci'' @ [CHR 0xF3] @ ''n'', ''Osmosis Inversa'', 1 / 6),
      (''Interacciones Generales'', ''Saludos y Cortes'' @ [CHR 0xED] @ ''a'', 1 / 3)]"

definition serie_con_intent :: "fila serie" where
  "serie_con_intent =
     ([''user_utterances'', ''conversation_name'', ''turn_position'', ''intent_name''],
      fila_ejemplo ''A'' 1 (Str ''quiero rastrear mi pedido'') (Str ''track_order_status''))"


definition clasificacion_alx1 :: clasificacion where
  "clasificacion_alx1 =
     (''Gesti'' @ [CHR 0xF3] @ ''n de Pedidos'',
      ''Modificaci'' @ [CHR 0xF3] @ ''n y Cancelaci'' @ [CHR 0xF3] @ ''n'', 1 / 6)"

definition puntuadas_alx1 :: "clasificacion list" where
  "puntuadas_alx1 =
     [(''Gesti'' @ [CHR 0xF3] @ ''n de Pedidos'',
       ''Modificaci'' @ [CHR 0xF3] @ ''n y Cancelaci'' @ [CHR 0xF3] @ ''n'', 1 / 6),
      (''Purificador ALX1'', ''Funcionalidad ALX1'', 1 / 6),
      (''Tecnolog'' @ [CHR 0xED] @ ''a y Filtraci'' @ [CHR 0xF3] @ ''n'', ''Osmosis Inversa'', 1 / 6),
      (''Tecnolog'' @ [CHR 0xED] @ ''a y Filtraci'' @ [CHR 0xF3] @ ''n'', ''Cartuchos y Filtros'', 1 / 7)]"


text \<open>
  The call in \<open>app.py\<close>: the filter receives the dataset of the page, and the three
  selections of the widgets.
\<close>

definition render_exploracion_datos ::
  "fila_clasificada dataframe \<Rightarrow> string \<Rightarrow> string \<Rightarrow> int \<Rightarrow> fila_clasificada dataframe" where
  "render_exploracion_datos df categoria_seleccionada subcategoria_seleccionada turnos_min =
     aplicar_filtros df categoria_seleccionada subcategoria_seleccionada turnos_min"

text \<open>
  The path of \<open>main\<close> to the exploration page: load, stop on an empty enriched dataset
  (the guard \<open>if df_limpio.empty\<close>; a load that returns always has a row), and render the
  page on \<open>df_limpio\<close>.
\<close>

definition main_exploracion ::
  "fila dataframe \<Rightarrow> string \<Rightarrow> string \<Rightarrow> int \<Rightarrow> error + fila_clasificada dataframe" where
  "main_exploracion leido categoria_seleccionada subcategoria_seleccionada turnos_min =
     (case cargar_y_procesar_datos leido of
        Inl err \<Rightarrow> Inl err
      | Inr (df_original, df_limpio) \<Rightarrow>
          if df_empty df_limpio then Inl SinDatosValidos
          else Inr (render_exploracion_datos df_limpio categoria_seleccionada
                      subcategoria_seleccionada turnos_min))"

section \<open>The filter, as the specification words it\<close>


text \<open>
  \<open>max_turns\<close> of a conversation in a dataset, the conversations of a dataset that meet
  a minimum, and the filter over two datasets.
\<close>

definition max_turns :: "'a fila_scheme dataframe \<Rightarrow> string \<Rightarrow> int" where
  "max_turns original k =
     Max (set (map turn_position (filter (\<lambda>r. conversation_name r = k) (rows original))))"

definition conversaciones_con_minimo :: "'a fila_scheme dataframe \<Rightarrow> int \<Rightarrow> string list" where
  "conversaciones_con_minimo original turnos_min =
     filter (\<lambda>k. max_turns original k \<ge> turnos_min)
       (remdups (map conversation_name (rows original)))"

definition filtro_spec ::
  "fila_clasificada dataframe \<Rightarrow> 'a fila_scheme dataframe \<Rightarrow> string \<Rightarrow> string \<Rightarrow> int \<Rightarrow>
     fila_clasificada dataframe" where
  "filtro_spec enriched original categoria_sel subcategoria_sel turnos_min =
     enriched\<lparr>rows :=
       filter (\<lambda>r. (categoria_sel = ''Todas'' \<or> categoria r = categoria_sel) \<and>
                   (subcategoria_sel = ''Todas'' \<or> subcategoria r = subcategoria_sel) \<and>
                   conversation_name r \<in> set (conversaciones_con_minimo original turnos_min))
         (rows enriched)\<rparr>"


section \<open>Order of first appearance\<close>


text \<open>
  The position of the first occurrence of a value in a list, and the relation
  \<open>antes xs a b\<close>: \<open>a\<close> stands somewhere before \<open>b\<close> in \<open>xs\<close>.
\<close>

definition primera_posicion :: "'a list \<Rightarrow> 'a \<Rightarrow> nat" where
  "primera_posicion xs x = length (takeWhile (\<lambda>y. y \<noteq> x) xs)"

definition antes :: "'a list \<Rightarrow> 'a \<Rightarrow> 'a \<Rightarrow> bool" where
  "antes xs a b = (\<exists>us vs ws. xs = us @ a # vs @ b # ws)"


section \<open>Example datasets\<close>

definition df_vacio :: "fila dataframe" where
  "df_vacio =
     \<lparr>columns = [''conversation_name'', ''turn_position'', ''user_utterances''], rows = []\<rparr>"

definition leido_turnos :: "fila dataframe" where
  "leido_turnos =
     \<lparr>columns = [''conversation_name'', ''turn_position'', ''user_utterances''],
      rows = [fila_ejemplo ''A'' 1 (Str ''Quiero rastrear mi pedido'') NaN,
              fila_ejemplo ''A'' 2 (Str ''ok'') NaN,
              fila_ejemplo ''B'' 1 (Str ''Hola'') NaN,
              fila_ejemplo ''B'' 2 (Str ''Necesito ayuda'') NaN]\<rparr>"

definition clasificada_ejemplo ::
  "fila \<Rightarrow> string \<Rightarrow> string \<Rightarrow> string \<Rightarrow> rat \<Rightarrow> fila_clasificada" where
  "clasificada_ejemplo r limpia c s k =
     fila.extend (r\<lparr>pregunta_limpia := limpia\<rparr>) (fila_clasificada.fields c s k)"

definition original_turnos :: "fila dataframe" where
  "original_turnos =
     \<lparr>columns = [''conversation_name'', ''turn_position'', ''user_utterances'',
                 ''pregunta_limpia''],
      rows = [(fila_ejemplo ''A'' 1 (Str ''Quiero rastrear mi pedido'') NaN)
                \<lparr>pregunta_limpia := ''quiero rastrear mi pedido''\<rparr>,
              (fila_ejemplo ''A'' 2 (Str ''ok'') NaN)\<lparr>pregunta_limpia := ''ok''\<rparr>,
              (fila_ejemplo ''B'' 1 (Str ''Hola'') NaN)\<lparr>pregunta_limpia := ''hola''\<rparr>,
              (fila_ejemplo ''B'' 2 (Str ''Necesito ayuda'') NaN)
                \<lparr>pregunta_limpia := ''necesito ayuda''\<rparr>]\<rparr>"

definition limpio_turnos :: "fila_clasificada dataframe" where
  "limpio_turnos =
     \<lparr>columns = [''conversation_name'', ''turn_position'', ''user_utterances'',
                 ''pregunta_limpia'', ''categoria'', ''subcategoria'', ''confidence''],
      rows = [clasificada_ejemplo (fila_ejemplo ''A'' 1 (Str ''Quiero rastrear mi pedido'') NaN)
                ''quiero rastrear mi pedido''
                (''Gesti'' @ [CHR 0xF3] @ ''n de Pedidos'') ''Rastreo y Estatus'' (2 / 9),
              clasificada_ejemplo (fila_ejemplo ''B'' 1 (Str ''Hola'') NaN) ''hola''
                ''Interacciones Generales'' (''Saludos y Cortes'' @ [CHR 0xED] @ ''a'') (1 / 6),
              clasificada_ejemplo (fila_ejemplo ''B'' 2 (Str ''Necesito ayuda'') NaN)
                ''necesito ayuda'' ''Sin Clasificar'' ''Otros'' 0]\<rparr>"


definition leido_ruido :: "fila dataframe" where
  "leido_ruido =
     \<lparr>columns = [''conversation_name'', ''turn_position'', ''user_utterances''],
      rows = [fila_ejemplo ''A'' 1 (Str ''Ok'') NaN,
              fila_ejemplo ''A'' 2 (Str ''si!'') NaN]\<rparr>"

definition df_preguntas :: "fila_clasificada dataframe" where
  "df_preguntas =
     \<lparr>columns = [''conversation_name'', ''turn_position'', ''user_utterances'',
                 ''pregunta_limpia'', ''categoria'', ''subcategoria'', ''confidence''],
      rows = [clasificada_ejemplo (fila_ejemplo ''A'' 1 (Str ''Horario?'') NaN) ''horario''
                ''Sin Clasificar'' ''Otros'' 0,
              clasificada_ejemplo (fila_ejemplo ''A'' 2 (Str ''Precio'') NaN) ''precio''
                ''Sin Clasificar'' ''Otros'' 0,
              clasificada_ejemplo (fila_ejemplo ''B'' 1 (Str ''Hola'') NaN) ''hola''
                ''Interacciones Generales'' (''Saludos y Cortes'' @ [CHR 0xED] @ ''a'') (1 / 6),
              clasificada_ejemplo (fila_ejemplo ''B'' 2 (Str ''precio'') NaN) ''precio''
                ''Sin Clasificar'' ''Otros'' 0,
              clasificada_ejemplo (fila_ejemplo ''C'' 1 (Str ''Tienen descuento?'') NaN)
                ''tienen descuento'' ''Sin Clasificar'' ''Otros'' 0,
              clasificada_ejemplo (fila_ejemplo ''C'' 2 (Str ''horario'') NaN) ''horario''
                ''Sin Clasificar'' ''Otros'' 0]\<rparr>"


section \<open>The normaliser is idempotent\<close>

lemma lower_char_idem: "lower_char (lower_char c) = lower_char c"
  by (auto simp: lower_char_def is_upper_def codigo_def Let_def)

lemma py_lower_fixed: "\<forall>c\<in>set s. lower_char c = c \<Longrightarrow> py_lower s = s"
  by (simp add: py_lower_def map_idI)

lemma lower_char_blank: "lower_char (CHR '' '') = CHR '' ''"
  by (simp add: lower_char_def is_upper_def codigo_def)

lemma is_space_blank: "is_space (CHR '' '')"
  by (simp add: is_space_def codigo_def)

lemma set_py_strip: "set (py_strip s) \<subseteq> set s"
  by (auto simp: py_strip_def dest!: set_dropWhileD)

lemma set_sub_no_permitidos: "set (sub_no_permitidos s) \<subseteq> insert (CHR '' '') (set s)"
  by (auto simp: sub_no_permitidos_def)

lemma ok_sub_no_permitidos:
  "c \<in> set (sub_no_permitidos s) \<Longrightarrow> is_word c \<or> is_space c \<or> c \<in> set letras_acentuadas"
  by (auto simp: sub_no_permitidos_def is_space_blank)

lemma set_sub_espacios: "set (sub_espacios s) \<subseteq> insert (CHR '' '') (set s)"
proof (induction s rule: sub_espacios.induct)
  case 1
  then show ?case by simp
next
  case (2 c cs)
  show ?case
  proof (cases "is_space c")
    case True
    then have "set (sub_espacios (dropWhile is_space cs)) \<subseteq> insert (CHR '' '') (set cs)"
      using 2(1) set_dropWhileD by fastforce
    then show ?thesis using True by auto
  next
    case False
    then show ?thesis using 2(2) by auto
  qed
qed

lemma no_doble_fixed: "no_doble s \<Longrightarrow> sub_espacios s = s"
  by (induction s rule: no_doble.induct) auto

lemma no_doble_Cons: "no_doble (c # s) \<Longrightarrow> no_doble s"
  by (cases s) auto

lemma no_doble_dropWhile: "no_doble s \<Longrightarrow> no_doble (dropWhile P s)"
  by (induction s) (auto dest: no_doble_Cons)

lemma no_doble_sub_espacios: "no_doble (sub_espacios s)"
proof (induction s rule: sub_espacios.induct)
  case 1
  then show ?case by simp
next
  case (2 c cs)
  show ?case
  proof (cases "is_space c")
    case True
    let ?t = "dropWhile is_space cs"
    have ih: "no_doble (sub_espacios ?t)" using 2 True by simp
    show ?thesis
    proof (cases ?t)
      case Nil
      then have "sub_espacios (c # cs) = [CHR '' '']"
        using True by (simp del: dropWhile_eq_Nil_conv)
      then show ?thesis by (simp add: is_space_blank)
    next
      case (Cons d r)
      then have "\<not> is_space d" by (metis hd_dropWhile list.sel(1) list.discI)
      then show ?thesis using True Cons ih by simp
    qed
  next
    case False
    have ih: "no_doble (sub_espacios cs)" using 2 False by simp
    show ?thesis
    proof (cases "sub_espacios cs")
      case Nil
      then show ?thesis using False by simp
    next
      case (Cons d r)
      then show ?thesis using False ih by simp
    qed
  qed
qed

lemma no_doble_append: "no_doble (a @ b) \<Longrightarrow> no_doble a"
proof (induction a rule: no_doble.induct)
  case 1
  then show ?case by simp
next
  case (2 c)
  then show ?case by (cases b) auto
next
  case (3 c d r)
  then show ?case by auto
qed

lemma rstrip_prefix: "\<exists>w. s = rev (dropWhile P (rev s)) @ w"
  by (metis takeWhile_dropWhile_id rev_append rev_rev_ident)

lemma no_doble_py_strip: "no_doble s \<Longrightarrow> no_doble (py_strip s)"
proof -
  assume "no_doble s"
  then have a: "no_doble (dropWhile is_space s)" by (rule no_doble_dropWhile)
  obtain w where "dropWhile is_space s = py_strip s @ w"
    using rstrip_prefix[of "dropWhile is_space s" is_space] by (auto simp: py_strip_def)
  with a show ?thesis by (metis no_doble_append)
qed

lemma py_strip_hd: "py_strip s = c # r \<Longrightarrow> \<not> is_space c"
proof -
  assume h: "py_strip s = c # r"
  let ?t = "dropWhile is_space s"
  obtain w where w: "?t = py_strip s @ w"
    using rstrip_prefix[of ?t is_space] by (auto simp: py_strip_def)
  then have "?t = c # (r @ w)" using h by simp
  then show ?thesis by (metis hd_dropWhile list.sel(1) list.discI)
qed

lemma py_strip_last: "py_strip s \<noteq> [] \<Longrightarrow> \<not> is_space (last (py_strip s))"
proof -
  assume h: "py_strip s \<noteq> []"
  let ?u = "dropWhile is_space (rev (dropWhile is_space s))"
  have u: "?u \<noteq> []" using h by (simp add: py_strip_def)
  then have "\<not> is_space (hd ?u)" by (rule hd_dropWhile)
  moreover have "last (py_strip s) = hd ?u" using u by (simp add: py_strip_def last_rev)
  ultimately show ?thesis by simp
qed

lemma py_strip_fixed:
  assumes "s \<noteq> [] \<longrightarrow> \<not> is_space (hd s) \<and> \<not> is_space (last s)"
  shows "py_strip s = s"
proof (cases s)
  case Nil
  then show ?thesis by (simp add: py_strip_def)
next
  case (Cons c r)
  then have a: "dropWhile is_space s = s" using assms by simp
  have "rev s \<noteq> []" using Cons by simp
  moreover have "hd (rev s) = last s" using Cons by (simp add: hd_rev)
  ultimately have "dropWhile is_space (rev s) = rev s" using assms Cons
    by (cases "rev s") auto
  then show ?thesis using a by (simp add: py_strip_def)
qed

lemma py_strip_idem: "py_strip (py_strip s) = py_strip s"
proof (rule py_strip_fixed, rule impI)
  assume h: "py_strip s \<noteq> []"
  then obtain c r where "py_strip s = c # r" by (cases "py_strip s") auto
  then have "\<not> is_space (hd (py_strip s))" using py_strip_hd by fastforce
  then show "\<not> is_space (hd (py_strip s)) \<and> \<not> is_space (last (py_strip s))"
    using py_strip_last[OF h] by simp
qed

lemma sub_no_permitidos_fixed:
  "\<forall>c\<in>set s. is_word c \<or> is_space c \<or> c \<in> set letras_acentuadas \<Longrightarrow>
     sub_no_permitidos s = s"
  by (simp add: sub_no_permitidos_def map_idI)

lemma limpiar_texto_chars:
  "c \<in> set (limpiar_texto (Str t)) \<Longrightarrow>
     lower_char c = c \<and> (is_word c \<or> is_space c \<or> c \<in> set letras_acentuadas)"
proof -
  let ?a = "py_strip (py_lower t)"
  let ?b = "sub_no_permitidos ?a"
  let ?c = "sub_espacios ?b"
  assume "c \<in> set (limpiar_texto (Str t))"
  then have "c \<in> set (py_strip ?c)" by (simp add: Let_def)
  then have c: "c \<in> set ?c" using set_py_strip by blast
  then have d: "c = CHR '' '' \<or> c \<in> set ?b" using set_sub_espacios by blast
  then have e: "c = CHR '' '' \<or> c \<in> set ?a" using set_sub_no_permitidos by blast
  then have "c = CHR '' '' \<or> c \<in> set (py_lower t)" using set_py_strip by blast
  then have "lower_char c = c"
    by (auto simp: py_lower_def lower_char_idem lower_char_blank)
  moreover have "is_word c \<or> is_space c \<or> c \<in> set letras_acentuadas"
    using d ok_sub_no_permitidos is_space_blank by blast
  ultimately show ?thesis by simp
qed

text \<open>
  C7. The text normaliser is idempotent: normalising the result of a normalisation
  changes nothing, for every input: a text, a missing value, or any other value.
\<close>

theorem limpiar_texto_idempotente:
  "limpiar_texto (Str (limpiar_texto x)) = limpiar_texto x"
proof (cases x)
  case NaN
  then show ?thesis by (simp add: py_strip_def py_lower_def sub_no_permitidos_def)
next
  case NoTexto
  then show ?thesis by (simp add: py_strip_def py_lower_def sub_no_permitidos_def)
next
  case (Str t)
  let ?r = "limpiar_texto (Str t)"
  have r: "?r = py_strip (sub_espacios (sub_no_permitidos (py_strip (py_lower t))))"
    by (simp add: Let_def)
  have 1: "py_lower ?r = ?r" using limpiar_texto_chars by (intro py_lower_fixed) blast
  have 2: "py_strip ?r = ?r" unfolding r by (rule py_strip_idem)
  have 3: "sub_no_permitidos ?r = ?r"
    using limpiar_texto_chars by (intro sub_no_permitidos_fixed) blast
  have "no_doble ?r" unfolding r by (intro no_doble_py_strip no_doble_sub_espacios)
  then have 4: "sub_espacios ?r = ?r" by (rule no_doble_fixed)
  have "limpiar_texto (Str ?r) =
      py_strip (sub_espacios (sub_no_permitidos (py_strip (py_lower ?r))))"
    by (simp add: Let_def)
  also have "\<dots> = ?r" by (simp only: 1 2 3 4)
  finally show ?thesis using Str by simp
qed


section \<open>The scoring loop\<close>

lemma evaluar_subcategoria_puro:
  "evaluar_subcategoria p c (s, ks) e = Inr (mejor_desde (puntuadas p [(c, s, ks)]) e)"
proof (cases "coincidencias p ks > 0")
  case True
  then have "length ks \<noteq> 0" by (auto simp: coincidencias_def)
  then show ?thesis using True
    by (cases e) (simp add: evaluar_subcategoria_def puntuadas_def puntuacion_def
        coincidencias_def Let_def)
next
  case False
  then show ?thesis
    by (cases e) (simp add: evaluar_subcategoria_def puntuadas_def coincidencias_def)
qed

lemma puntuadas_append: "puntuadas p (a @ b) = puntuadas p a @ puntuadas p b"
  by (simp add: puntuadas_def)

lemma mejor_desde_append: "mejor_desde (a @ b) e = mejor_desde b (mejor_desde a e)"
  by (induction a arbitrary: e) auto

lemma bucle_subcategorias_puro:
  "bucle_subcategorias p c subs e =
     Inr (mejor_desde (puntuadas p (map (\<lambda>(s, ks). (c, s, ks)) subs)) e)"
proof (induction subs arbitrary: e)
  case Nil
  then show ?case by (simp add: puntuadas_def)
next
  case (Cons sk subs)
  obtain s ks where sk: "sk = (s, ks)" by (cases sk)
  have "puntuadas p (map (\<lambda>(s, ks). (c, s, ks)) (sk # subs)) =
      puntuadas p [(c, s, ks)] @ puntuadas p (map (\<lambda>(s, ks). (c, s, ks)) subs)"
    unfolding sk by (simp add: puntuadas_def)
  then show ?case
    using Cons sk by (simp add: evaluar_subcategoria_puro mejor_desde_append)
qed

lemma ternas_Cons: "ternas ((c, subs) # tax) = map (\<lambda>(s, ks). (c, s, ks)) subs @ ternas tax"
  by (simp add: ternas_def)

lemma bucle_categorias_puro:
  "bucle_categorias p tax e = Inr (mejor_desde (puntuadas p (ternas tax)) e)"
proof (induction tax arbitrary: e)
  case Nil
  then show ?case by (simp add: ternas_def puntuadas_def)
next
  case (Cons cs tax)
  obtain c subs where cs: "cs = (c, subs)" by (cases cs)
  show ?case
    using Cons cs
    by (simp add: bucle_subcategorias_puro ternas_Cons puntuadas_append mejor_desde_append)
qed

lemma puntuadas_positivas: "t \<in> set (puntuadas p ts) \<Longrightarrow> 0 < puntuacion t"
proof -
  assume "t \<in> set (puntuadas p ts)"
  then obtain c s ks where t: "t = (c, s, of_nat (coincidencias p ks) / of_nat (length ks))"
    and pos: "coincidencias p ks > 0"
    by (auto simp: puntuadas_def)
  have "coincidencias p ks \<le> length ks" by (simp add: coincidencias_def)
  then have "length ks > 0" using pos by linarith
  then show ?thesis using t pos by (simp add: puntuacion_def)
qed

lemma mejor_desde_inv:
  "mejor_desde xs e = e' \<Longrightarrow>
     (\<forall>t\<in>set xs. puntuacion t \<le> snd e') \<and>
     (e' = e \<or>
      (\<exists>i<length xs. e' = (Some (xs ! i), puntuacion (xs ! i)) \<and> snd e < snd e' \<and>
         (\<forall>j<i. puntuacion (xs ! j) < snd e')))"
proof (induction xs arbitrary: e)
  case Nil
  then show ?case by simp
next
  case (Cons x xs)
  show ?case
  proof (cases "puntuacion x > snd e")
    case True
    let ?e1 = "(Some x, puntuacion x)"
    have run: "mejor_desde xs ?e1 = e'" using Cons.prems True by simp
    note ih = Cons.IH[OF run]
    from ih have le: "\<forall>t\<in>set xs. puntuacion t \<le> snd e'" by simp
    from ih consider (same) "e' = ?e1"
      | (later) i where "i < length xs" "e' = (Some (xs ! i), puntuacion (xs ! i))"
          "snd ?e1 < snd e'" "\<forall>j<i. puntuacion (xs ! j) < snd e'"
      by blast
    then show ?thesis
    proof cases
      case same
      then have "e' = (Some ((x # xs) ! 0), puntuacion ((x # xs) ! 0))" by simp
      moreover have "snd e < snd e'" using same True by simp
      moreover have "\<forall>t\<in>set (x # xs). puntuacion t \<le> snd e'" using le same by simp
      ultimately show ?thesis by (metis length_Cons not_less_zero zero_less_Suc)
    next
      case later
      have a: "e' = (Some ((x # xs) ! Suc i), puntuacion ((x # xs) ! Suc i))"
        using later(2) by simp
      have b: "snd e < snd e'" using later(3) True by simp
      have c: "\<forall>j<Suc i. puntuacion ((x # xs) ! j) < snd e'"
      proof (intro allI impI)
        fix j assume "j < Suc i"
        then show "puntuacion ((x # xs) ! j) < snd e'"
          using later(3,4) by (cases j) auto
      qed
      have d: "\<forall>t\<in>set (x # xs). puntuacion t \<le> snd e'" using le later(3) by auto
      have "Suc i < length (x # xs)" using later(1) by simp
      then show ?thesis using a b c d by blast
    qed
  next
    case False
    have run: "mejor_desde xs e = e'" using Cons.prems False by simp
    note ih = Cons.IH[OF run]
    from ih have le: "\<forall>t\<in>set xs. puntuacion t \<le> snd e'" by simp
    from ih consider (same) "e' = e"
      | (later) i where "i < length xs" "e' = (Some (xs ! i), puntuacion (xs ! i))"
          "snd e < snd e'" "\<forall>j<i. puntuacion (xs ! j) < snd e'"
      by blast
    then show ?thesis
    proof cases
      case same
      then show ?thesis using le False by auto
    next
      case later
      have a: "e' = (Some ((x # xs) ! Suc i), puntuacion ((x # xs) ! Suc i))"
        using later(2) by simp
      have c: "\<forall>j<Suc i. puntuacion ((x # xs) ! j) < snd e'"
      proof (intro allI impI)
        fix j assume "j < Suc i"
        then show "puntuacion ((x # xs) ! j) < snd e'"
          using later(3,4) False by (cases j) auto
      qed
      have d: "\<forall>t\<in>set (x # xs). puntuacion t \<le> snd e'" using le later(3) False by auto
      have "Suc i < length (x # xs)" using later(1) by simp
      then show ?thesis using a later(3) c d by blast
    qed
  qed
qed




section \<open>The classifier\<close>

lemma clasificar_consulta_sin_intent:
  "intent_nativo row = None \<Longrightarrow> pregunta_de row = Inr p \<Longrightarrow>
     clasificar_consulta row =
       (case fst (mejor_desde (puntuadas p (ternas CATEGORIAS_SUBCATEGORIAS)) (None, 0)) of
          Some m \<Rightarrow> Inr m
        | None \<Rightarrow> Inr (''Sin Clasificar'', ''Otros'', 0))"
  by (simp add: clasificar_consulta_def bucle_categorias_puro split: prod.splits)

lemma pregunta_de_normalizada:
  assumes "''user_utterances'' \<in> set (fst row)"
    and "''pregunta_limpia'' \<in> set (fst row) \<longrightarrow>
           pregunta_limpia (snd row) = limpiar_texto (user_utterances (snd row))"
  shows "pregunta_de row = Inr (limpiar_texto (user_utterances (snd row)))"
  using assms by (simp add: pregunta_de_def)

text \<open>
  C3. A record whose \<open>intent_name\<close> is present, is a text, and is none of the three
  sentinel values (\<open>UNSPECIFIED\<close>, the empty text, \<open>Default Welcome Intent\<close>) is
  classified as the intent with underscores replaced by blanks and title-cased, with
  subcategory \<open>Por Intent\<close> and confidence 0.9, whatever the utterance says.
\<close>

theorem clasificar_consulta_por_intent:
  assumes "''intent_name'' \<in> set (fst row)"
    and "intent_name (snd row) = Str i"
    and "i \<noteq> ''UNSPECIFIED''" and "i \<noteq> ''''" and "i \<noteq> ''Default Welcome Intent''"
  shows "clasificar_consulta row =
           Inr (py_title (py_replace (CHR ''_'') (CHR '' '') i), ''Por Intent'', 9 / 10)"
proof -
  have "intent_nativo row = Some (Str i)"
    using assms by (cases row) (simp add: intent_nativo_def)
  then show ?thesis by (simp add: clasificar_consulta_def)
qed

theorem clasificar_consulta_por_intent_witness:
  "''intent_name'' \<in> set (fst serie_con_intent) \<and>
   intent_name (snd serie_con_intent) = Str ''track_order_status'' \<and>
   clasificar_consulta serie_con_intent = Inr (''Track Order Status'', ''Por Intent'', 9 / 10)"
proof -
  have a: "''intent_name'' \<in> set (fst serie_con_intent)"
    by (simp add: serie_con_intent_def)
  have b: "intent_name (snd serie_con_intent) = Str ''track_order_status''"
    by (simp add: serie_con_intent_def fila_ejemplo_def)
  have c: "''track_order_status'' \<noteq> ''UNSPECIFIED''" by simp
  have d: "''track_order_status'' \<noteq> ''''" by simp
  have e: "''track_order_status'' \<noteq> ''Default Welcome Intent''" by simp
  have t: "py_title (py_replace (CHR ''_'') (CHR '' '') ''track_order_status'') =
      ''Track Order Status''"
    by code_simp
  show ?thesis
    using clasificar_consulta_por_intent[OF a b c d e] a b t by simp
qed

lemma mejor_desde_cota:
  "mejor_desde xs e = e' \<Longrightarrow> t \<in> set xs \<Longrightarrow> puntuacion t \<le> snd e'"
  using mejor_desde_inv[of xs e e'] by simp

lemma mejor_desde_forma:
  "mejor_desde xs e = e' \<Longrightarrow> e' \<noteq> e \<Longrightarrow>
     \<exists>i<length xs. e' = (Some (xs ! i), puntuacion (xs ! i)) \<and>
        (\<forall>j<i. puntuacion (xs ! j) < snd e')"
proof -
  assume a: "mejor_desde xs e = e'" and ne: "e' \<noteq> e"
  from mejor_desde_inv[OF a]
  have "e' = e \<or>
      (\<exists>i<length xs. e' = (Some (xs ! i), puntuacion (xs ! i)) \<and> snd e < snd e' \<and>
         (\<forall>j<i. puntuacion (xs ! j) < snd e'))"
    by (rule conjunct2)
  with ne have "\<exists>i<length xs. e' = (Some (xs ! i), puntuacion (xs ! i)) \<and> snd e < snd e' \<and>
         (\<forall>j<i. puntuacion (xs ! j) < snd e')"
    by simp
  then obtain i where "i < length xs" "e' = (Some (xs ! i), puntuacion (xs ! i))"
      "\<forall>j<i. puntuacion (xs ! j) < snd e'"
    by (elim exE conjE)
  then show ?thesis by (intro exI[of _ i] conjI)
qed

lemma clasificar_consulta_estado_final:
  assumes "intent_nativo row = None"
    and "pregunta_de row = Inr p"
    and "ps = puntuadas p (ternas CATEGORIAS_SUBCATEGORIAS)"
    and "ps \<noteq> []"
  shows "\<exists>i<length ps. mejor_desde ps (None, 0) = (Some (ps ! i), puntuacion (ps ! i)) \<and>
           clasificar_consulta row = Inr (ps ! i) \<and>
           (\<forall>j<i. puntuacion (ps ! j) < puntuacion (ps ! i))"
proof -
  define e' where "e' = mejor_desde ps (None, 0)"
  then have run: "mejor_desde ps (None, 0) = e'" by simp
  obtain t where t: "t \<in> set ps" using assms(4) by (cases ps) auto
  then have "0 < puntuacion t" using assms(3) puntuadas_positivas by blast
  moreover have "puntuacion t \<le> snd e'" using mejor_desde_cota[OF run t] .
  ultimately have "0 < snd e'" by simp
  then have ne: "e' \<noteq> (None, 0)" by auto
  obtain i where i1: "i < length ps" and i2: "e' = (Some (ps ! i), puntuacion (ps ! i))"
      and i3: "\<forall>j<i. puntuacion (ps ! j) < snd e'"
    using mejor_desde_forma[OF run ne] by (elim exE conjE)
  have r: "clasificar_consulta row = Inr (ps ! i)"
    using clasificar_consulta_sin_intent[OF assms(1,2)] run i2 assms(3) by simp
  have f: "\<forall>j<i. puntuacion (ps ! j) < puntuacion (ps ! i)"
    using i2 i3 by simp
  have "mejor_desde ps (None, 0) = (Some (ps ! i), puntuacion (ps ! i))"
    using run i2 by simp
  then show ?thesis using i1 r f by (intro exI[of _ i] conjI)
qed

text \<open>
  C2. Take a record that carries an utterance and has no intent override; when it
  carries a normalised text too, that text is the normalisation of its utterance, as the
  load writes it. List the taxonomy triples in insertion order (\<open>ternas\<close>), and for each
  triple with at least one keyword that is a substring of the normalised utterance the
  score, the number of such keywords divided by the number of keywords of the triple
  (\<open>puntuadas\<close>). When the list is not empty the classifier returns one of its entries:
  no entry has a greater score, and every entry before it has a strictly smaller one, so
  ties keep the first triple met.
\<close>

theorem clasificar_consulta_mayor_puntuacion:
  assumes "''user_utterances'' \<in> set (fst row)"
    and "intent_nativo row = None"
    and "''pregunta_limpia'' \<in> set (fst row) \<longrightarrow>
           pregunta_limpia (snd row) = limpiar_texto (user_utterances (snd row))"
    and "ps = puntuadas (limpiar_texto (user_utterances (snd row)))
                (ternas CATEGORIAS_SUBCATEGORIAS)"
    and "ps \<noteq> []"
  shows "\<exists>i<length ps. clasificar_consulta row = Inr (ps ! i) \<and>
           (\<forall>j<length ps. puntuacion (ps ! j) \<le> puntuacion (ps ! i)) \<and>
           (\<forall>j<i. puntuacion (ps ! j) < puntuacion (ps ! i))"
proof -
  have p: "pregunta_de row = Inr (limpiar_texto (user_utterances (snd row)))"
    using assms(1,3) by (rule pregunta_de_normalizada)
  obtain i where i1: "i < length ps"
      and run: "mejor_desde ps (None, 0) = (Some (ps ! i), puntuacion (ps ! i))"
      and r: "clasificar_consulta row = Inr (ps ! i)"
      and f: "\<forall>j<i. puntuacion (ps ! j) < puntuacion (ps ! i)"
    using clasificar_consulta_estado_final[OF assms(2) p assms(4,5)] by (elim exE conjE)
  have m: "\<forall>j<length ps. puntuacion (ps ! j) \<le> puntuacion (ps ! i)"
  proof (intro allI impI)
    fix j assume "j < length ps"
    then have "ps ! j \<in> set ps" by simp
    from mejor_desde_cota[OF run this] show "puntuacion (ps ! j) \<le> puntuacion (ps ! i)"
      by simp
  qed
  show ?thesis using i1 r m f by (intro exI[of _ i] conjI)
qed

theorem clasificar_consulta_mayor_puntuacion_witness:
  "''user_utterances'' \<in> set (fst serie_con_saludo) \<and>
   intent_nativo serie_con_saludo = None \<and>
   user_utterances (snd serie_con_saludo) = Str ''Hola, gracias. Quiero rastrear mi pedido'' \<and>
   limpiar_texto (Str ''Hola, gracias. Quiero rastrear mi pedido'') =
     ''hola gracias quiero rastrear mi pedido'' \<and>
   pregunta_limpia (snd serie_con_saludo) =
     limpiar_texto (user_utterances (snd serie_con_saludo)) \<and>
   puntuadas ''hola gracias quiero rastrear mi pedido'' (ternas CATEGORIAS_SUBCATEGORIAS) =
     puntuadas_saludo \<and>
   puntuadas_saludo \<noteq> [] \<and>
   clasificar_consulta serie_con_saludo = Inr (puntuadas_saludo ! 2) \<and>
   clasificar_consulta serie_saludo_sin_limpia = Inr (puntuadas_saludo ! 2) \<and>
   (\<exists>i<length puntuadas_saludo.
      clasificar_consulta serie_con_saludo = Inr (puntuadas_saludo ! i) \<and>
      (\<forall>j<length puntuadas_saludo.
         puntuacion (puntuadas_saludo ! j) \<le> puntuacion (puntuadas_saludo ! i)) \<and>
      (\<forall>j<i. puntuacion (puntuadas_saludo ! j) < puntuacion (puntuadas_saludo ! i)))"
proof -
  have u: "''user_utterances'' \<in> set (fst serie_con_saludo)"
    by (simp add: serie_con_saludo_def)
  have a: "intent_nativo serie_con_saludo = None" by code_simp
  have t: "user_utterances (snd serie_con_saludo) =
      Str ''Hola, gracias. Quiero rastrear mi pedido''"
    by (simp add: serie_con_saludo_def fila_ejemplo_def)
  have n: "limpiar_texto (Str ''Hola, gracias. Quiero rastrear mi pedido'') =
      ''hola gracias quiero rastrear mi pedido''"
    by code_simp
  have l: "pregunta_limpia (snd serie_con_saludo) =
      limpiar_texto (user_utterances (snd serie_con_saludo))"
    unfolding t n by (simp add: serie_con_saludo_def)
  then have l': "''pregunta_limpia'' \<in> set (fst serie_con_saludo) \<longrightarrow>
      pregunta_limpia (snd serie_con_saludo) =
        limpiar_texto (user_utterances (snd serie_con_saludo))"
    by simp
  have p: "puntuadas ''hola gracias quiero rastrear mi pedido''
      (ternas CATEGORIAS_SUBCATEGORIAS) = puntuadas_saludo"
    by code_simp
  have b: "puntuadas_saludo =
      puntuadas (limpiar_texto (user_utterances (snd serie_con_saludo)))
        (ternas CATEGORIAS_SUBCATEGORIAS)"
    unfolding t n p by (rule refl)
  have c: "puntuadas_saludo \<noteq> []" by (simp add: puntuadas_saludo_def)
  have r: "clasificar_consulta serie_con_saludo = Inr (puntuadas_saludo ! 2)"
    by code_simp
  have s: "clasificar_consulta serie_saludo_sin_limpia = Inr (puntuadas_saludo ! 2)"
    by code_simp
  show ?thesis
    using clasificar_consulta_mayor_puntuacion[OF u a l' b c] u a t n l p c r s
    by (intro conjI)
qed

lemma puntuadas_vacia:
  assumes "\<forall>(c, s, ks) \<in> set ts. \<forall>k \<in> set ks. \<not> sublist k p"
  shows "puntuadas p ts = []"
proof -
  have "coincidencias p ks = 0" if "(c, s, ks) \<in> set ts" for c s ks
    using assms that by (auto simp: coincidencias_def filter_empty_conv)
  then show ?thesis by (auto simp: puntuadas_def filter_empty_conv)
qed

lemma intent_nativo_texto:
  assumes "''intent_name'' \<in> set (fst row) \<longrightarrow> intent_name (snd row) \<noteq> NoTexto"
    and "intent_nativo row = Some x"
  shows "\<exists>i. x = Str i"
proof (cases "intent_name (snd row)")
  case (Str i)
  then have "x = Str i"
    using assms(2) by (cases row) (auto simp: intent_nativo_def split: if_splits)
  then show ?thesis ..
next
  case NaN
  then have False
    using assms(2) by (cases row) (auto simp: intent_nativo_def split: if_splits)
  then show ?thesis ..
next
  case NoTexto
  then have False
    using assms by (cases row) (auto simp: intent_nativo_def split: if_splits)
  then show ?thesis ..
qed

lemma clasificar_consulta_total:
  assumes "''user_utterances'' \<in> set (fst row)"
    and "''intent_name'' \<in> set (fst row) \<longrightarrow> intent_name (snd row) \<noteq> NoTexto"
  shows "\<exists>t. clasificar_consulta row = Inr t"
proof (cases "intent_nativo row")
  case None
  obtain p where p: "pregunta_de row = Inr p"
    using assms(1) by (cases "''pregunta_limpia'' \<in> set (fst row)") (simp_all add: pregunta_de_def)
  show ?thesis
    by (simp add: clasificar_consulta_sin_intent[OF None p] split: option.splits)
next
  case (Some x)
  then obtain i where "x = Str i" using intent_nativo_texto[OF assms(2)] by blast
  then have "clasificar_consulta row =
      Inr (py_title (py_replace (CHR ''_'') (CHR '' '') i), ''Por Intent'', 9 / 10)"
    using Some by (simp add: clasificar_consulta_def)
  then show ?thesis ..
qed

text \<open>
  C4, as stated, fails: the classifier is not total. A record without the field
  \<open>user_utterances\<close> raises \<open>KeyError\<close> (the utterance is read with \<open>row[...]\<close>), and a
  record whose \<open>intent_name\<close> is a number raises \<open>AttributeError\<close> (the cell passes the
  guard of the intent branch and has no method \<open>replace\<close>).
\<close>

theorem clasificar_consulta_falla_counterexample:
  "clasificar_consulta serie_sin_utterances = Inl KeyError \<and>
   clasificar_consulta serie_intent_numerico = Inl AttributeError"
proof -
  have "clasificar_consulta serie_sin_utterances = Inl KeyError" by code_simp
  moreover have "clasificar_consulta serie_intent_numerico = Inl AttributeError" by code_simp
  ultimately show ?thesis by (intro conjI)
qed

text \<open>
  C4, amended. For a record that carries an utterance and whose \<open>intent_name\<close>, when the
  record has one, is a text or a missing value, the classifier returns a classification.
  When such a record has no intent override and its normalised utterance
  contains no keyword of any taxonomy entry, the classification is exactly
  \<open>Sin Clasificar\<close>, \<open>Otros\<close>, 0. (A normalised text that the record carries is the
  normalisation of its utterance, as the load writes it.)
\<close>

theorem clasificar_consulta_respaldo:
  assumes "''user_utterances'' \<in> set (fst row)"
    and "''intent_name'' \<in> set (fst row) \<longrightarrow> intent_name (snd row) \<noteq> NoTexto"
  shows "(\<exists>t. clasificar_consulta row = Inr t) \<and>
   (intent_nativo row = None \<longrightarrow>
    (''pregunta_limpia'' \<in> set (fst row) \<longrightarrow>
       pregunta_limpia (snd row) = limpiar_texto (user_utterances (snd row))) \<longrightarrow>
    (\<forall>(c, s, ks) \<in> set (ternas CATEGORIAS_SUBCATEGORIAS). \<forall>k \<in> set ks.
        \<not> sublist k (limpiar_texto (user_utterances (snd row)))) \<longrightarrow>
    clasificar_consulta row = Inr (''Sin Clasificar'', ''Otros'', 0))"
proof (intro conjI impI)
  show "\<exists>t. clasificar_consulta row = Inr t"
    using assms by (rule clasificar_consulta_total)
next
  assume a: "intent_nativo row = None"
    and l: "''pregunta_limpia'' \<in> set (fst row) \<longrightarrow>
       pregunta_limpia (snd row) = limpiar_texto (user_utterances (snd row))"
    and b: "\<forall>(c, s, ks) \<in> set (ternas CATEGORIAS_SUBCATEGORIAS). \<forall>k \<in> set ks.
        \<not> sublist k (limpiar_texto (user_utterances (snd row)))"
  have p: "pregunta_de row = Inr (limpiar_texto (user_utterances (snd row)))"
    using assms(1) l by (rule pregunta_de_normalizada)
  have "puntuadas (limpiar_texto (user_utterances (snd row)))
      (ternas CATEGORIAS_SUBCATEGORIAS) = []"
    using b by (rule puntuadas_vacia)
  then show "clasificar_consulta row = Inr (''Sin Clasificar'', ''Otros'', 0)"
    using clasificar_consulta_sin_intent[OF a p] by simp
qed

theorem clasificar_consulta_respaldo_witness:
  "''user_utterances'' \<in> set (fst serie_sin_palabras) \<and>
   ''pregunta_limpia'' \<notin> set (fst serie_sin_palabras) \<and>
   user_utterances (snd serie_sin_palabras) = Str ''Tengo una pregunta!'' \<and>
   intent_name (snd serie_sin_palabras) = Str ''UNSPECIFIED'' \<and>
   intent_nativo serie_sin_palabras = None \<and>
   limpiar_texto (user_utterances (snd serie_sin_palabras)) = ''tengo una pregunta'' \<and>
   puntuadas ''tengo una pregunta'' (ternas CATEGORIAS_SUBCATEGORIAS) = [] \<and>
   clasificar_consulta serie_sin_palabras = Inr (''Sin Clasificar'', ''Otros'', 0)"
proof -
  have u: "''user_utterances'' \<in> set (fst serie_sin_palabras)"
    by (simp add: serie_sin_palabras_def)
  have l: "''pregunta_limpia'' \<notin> set (fst serie_sin_palabras)"
    by (simp add: serie_sin_palabras_def)
  have t: "user_utterances (snd serie_sin_palabras) = Str ''Tengo una pregunta!''"
    by (simp add: serie_sin_palabras_def fila_ejemplo_def)
  have i: "intent_name (snd serie_sin_palabras) = Str ''UNSPECIFIED''"
    by (simp add: serie_sin_palabras_def fila_ejemplo_def)
  then have i': "''intent_name'' \<in> set (fst serie_sin_palabras) \<longrightarrow>
      intent_name (snd serie_sin_palabras) \<noteq> NoTexto"
    by simp
  have a: "intent_nativo serie_sin_palabras = None" by code_simp
  have n: "limpiar_texto (user_utterances (snd serie_sin_palabras)) = ''tengo una pregunta''"
    by code_simp
  have b: "\<forall>(c, s, ks) \<in> set (ternas CATEGORIAS_SUBCATEGORIAS). \<forall>k \<in> set ks.
        \<not> sublist k (limpiar_texto (user_utterances (snd serie_sin_palabras)))"
    by code_simp
  have e: "puntuadas ''tengo una pregunta'' (ternas CATEGORIAS_SUBCATEGORIAS) = []"
    using b unfolding n by (rule puntuadas_vacia)
  have "clasificar_consulta serie_sin_palabras = Inr (''Sin Clasificar'', ''Otros'', 0)"
    using clasificar_consulta_respaldo[OF u i'] a l b by blast
  then show ?thesis using u l t i a n e by (intro conjI)
qed

text \<open>
  C9, as stated, fails: the utterance \<open>necesito cambiar el filtro de mi ALX1\<close> with no
  intent override is classified in the category \<open>Gestion de Pedidos\<close>, which is neither
  \<open>Purificador ALX1\<close> nor \<open>Mantenimiento y Soporte\<close>.
\<close>

theorem clasificar_alx1_counterexample:
  "clasificar_consulta serie_alx1 = Inr clasificacion_alx1 \<and>
   fst clasificacion_alx1 \<noteq> ''Purificador ALX1'' \<and>
   fst clasificacion_alx1 \<noteq> ''Mantenimiento y Soporte''"
proof -
  have "clasificar_consulta serie_alx1 = Inr clasificacion_alx1" by code_simp
  moreover have "fst clasificacion_alx1 \<noteq> ''Purificador ALX1''" by code_simp
  moreover have "fst clasificacion_alx1 \<noteq> ''Mantenimiento y Soporte''" by code_simp
  ultimately show ?thesis by (intro conjI)
qed

text \<open>
  C9, amended. The utterance normalises to \<open>necesito cambiar el filtro de mi alx1\<close>.
  Four taxonomy entries match a keyword: \<open>Modificacion y Cancelacion\<close> (\<open>cambiar\<close>, 1/6),
  \<open>Funcionalidad ALX1\<close> (\<open>alx1\<close>, 1/6), \<open>Osmosis Inversa\<close> (\<open>ro\<close> inside \<open>filtro\<close>, 1/6)
  and \<open>Cartuchos y Filtros\<close> (\<open>filtro\<close>, 1/7); no subcategory of
  \<open>Mantenimiento y Soporte\<close> matches. The classifier returns the first of the three entries
  tied at 1/6: category \<open>Gestion de Pedidos\<close>, subcategory \<open>Modificacion y Cancelacion\<close>.
\<close>

theorem clasificar_alx1:
  "pregunta_de serie_alx1 = Inr ''necesito cambiar el filtro de mi alx1'' \<and>
   puntuadas ''necesito cambiar el filtro de mi alx1'' (ternas CATEGORIAS_SUBCATEGORIAS) =
     puntuadas_alx1 \<and>
   clasificar_consulta serie_alx1 = Inr (puntuadas_alx1 ! 0)"
proof -
  have "pregunta_de serie_alx1 = Inr ''necesito cambiar el filtro de mi alx1''" by code_simp
  moreover have "puntuadas ''necesito cambiar el filtro de mi alx1''
      (ternas CATEGORIAS_SUBCATEGORIAS) = puntuadas_alx1"
    by code_simp
  moreover have "clasificar_consulta serie_alx1 = Inr (puntuadas_alx1 ! 0)" by code_simp
  ultimately show ?thesis by (intro conjI)
qed

text \<open>
  C10. Some record with no intent override is classified \<open>Sin Clasificar\<close>, \<open>Otros\<close> with
  a confidence above 0 (the utterance \<open>Otros\<close>: that pair is a taxonomy entry with keywords
  of its own). So the pair alone does not tell the fallback; the confidence does: for a
  record with no intent override, the confidence is 0 exactly when no keyword matched.
\<close>

theorem sin_clasificar_con_confianza:
  "(\<exists>row :: fila serie. intent_nativo row = None \<and>
      (\<exists>k. 0 < k \<and> clasificar_consulta row = Inr (''Sin Clasificar'', ''Otros'', k))) \<and>
   (intent_nativo r = None \<longrightarrow> clasificar_consulta r = Inr (c, s, k) \<longrightarrow>
      (\<exists>p. pregunta_de r = Inr p \<and>
           ((k = 0) = (puntuadas p (ternas CATEGORIAS_SUBCATEGORIAS) = []))))"
proof (intro conjI impI)
  have "intent_nativo serie_otros = None" by code_simp
  moreover have "clasificar_consulta serie_otros = Inr (''Sin Clasificar'', ''Otros'', 1 / 3)"
    by code_simp
  ultimately show "\<exists>row :: fila serie. intent_nativo row = None \<and>
      (\<exists>k. 0 < k \<and> clasificar_consulta row = Inr (''Sin Clasificar'', ''Otros'', k))"
    by (intro exI[of _ serie_otros] exI[of _ "1 / 3"] conjI) simp_all
next
  assume a: "intent_nativo r = None" and b: "clasificar_consulta r = Inr (c, s, k)"
  obtain p where p: "pregunta_de r = Inr p"
    using a b by (cases "pregunta_de r") (simp_all add: clasificar_consulta_def)
  let ?ps = "puntuadas p (ternas CATEGORIAS_SUBCATEGORIAS)"
  have "(k = 0) = (?ps = [])"
  proof (cases "?ps = []")
    case True
    then have "clasificar_consulta r = Inr (''Sin Clasificar'', ''Otros'', 0)"
      using clasificar_consulta_sin_intent[OF a p] by simp
    then show ?thesis using b True by simp
  next
    case False
    obtain i where i: "i < length ?ps" "clasificar_consulta r = Inr (?ps ! i)"
      using clasificar_consulta_estado_final[OF a p refl False] by (elim exE conjE)
    then have "?ps ! i \<in> set ?ps" by simp
    then have "0 < puntuacion (?ps ! i)" by (rule puntuadas_positivas)
    moreover have "?ps ! i = (c, s, k)" using i(2) b by simp
    ultimately show ?thesis using False by (simp add: puntuacion_def)
  qed
  then show "\<exists>p. pregunta_de r = Inr p \<and>
      ((k = 0) = (puntuadas p (ternas CATEGORIAS_SUBCATEGORIAS) = []))"
    using p by (intro exI[of _ p] conjI)
qed

theorem sin_clasificar_con_confianza_witness:
  "intent_nativo serie_otros = None \<and>
   pregunta_de serie_otros = Inr ''otros'' \<and>
   clasificar_consulta serie_otros = Inr (''Sin Clasificar'', ''Otros'', 1 / 3) \<and>
   puntuadas ''otros'' (ternas CATEGORIAS_SUBCATEGORIAS) \<noteq> []"
proof -
  have a: "intent_nativo serie_otros = None" by code_simp
  have q: "pregunta_de serie_otros = Inr ''otros''" by code_simp
  have b: "clasificar_consulta serie_otros = Inr (''Sin Clasificar'', ''Otros'', 1 / 3)"
    by code_simp
  obtain p where p: "pregunta_de serie_otros = Inr p"
      "((1 / 3 :: rat) = 0) = (puntuadas p (ternas CATEGORIAS_SUBCATEGORIAS) = [])"
    using sin_clasificar_con_confianza[of serie_otros "''Sin Clasificar''" "''Otros''" "1 / 3"]
      a b by blast
  then have "p = ''otros''" using q by simp
  then have "puntuadas ''otros'' (ternas CATEGORIAS_SUBCATEGORIAS) \<noteq> []"
    using p(2) by simp
  then show ?thesis using a q b by (intro conjI)
qed


section \<open>The dataset pipeline\<close>

lemma truncate_extend:
  "fila.truncate (fila.extend r (fila_clasificada.fields c s k)) = r"
  by (cases r) (simp add: fila.truncate_def fila.extend_def fila_clasificada.fields_def)

lemma clasificar_filas_ok:
  assumes "''user_utterances'' \<in> set cols"
    and "\<forall>r \<in> set rs. ''intent_name'' \<in> set cols \<longrightarrow> intent_name r \<noteq> NoTexto"
  shows "\<exists>out. clasificar_filas cols rs = Inr out \<and> map fila.truncate out = rs \<and>
     map (\<lambda>r. Inr (categoria r, subcategoria r, confidence r)) out =
       map (\<lambda>r. clasificar_consulta (cols, r)) rs"
  using assms(2)
proof (induction rs)
  case Nil
  then show ?case by simp
next
  case (Cons r rs)
  have resto: "\<forall>r \<in> set rs. ''intent_name'' \<in> set cols \<longrightarrow> intent_name r \<noteq> NoTexto"
    using Cons.prems by simp
  from Cons.IH[OF resto]
  obtain out where out: "clasificar_filas cols rs = Inr out"
      "map fila.truncate out = rs"
      "map (\<lambda>r. Inr (categoria r, subcategoria r, confidence r)) out =
         map (\<lambda>r. clasificar_consulta (cols, r)) rs"
    by (elim exE conjE)
  have u: "''user_utterances'' \<in> set (fst (cols, r))" using assms(1) by simp
  have i: "''intent_name'' \<in> set (fst (cols, r)) \<longrightarrow> intent_name (snd (cols, r)) \<noteq> NoTexto"
    using Cons.prems by simp
  obtain c s k where csk: "clasificar_consulta (cols, r) = Inr (c, s, k)"
    using clasificar_consulta_total[OF u i] by (metis prod_cases3)
  let ?x = "fila.extend r (fila_clasificada.fields c s k)"
  have 1: "clasificar_filas cols (r # rs) = Inr (?x # out)"
    using out(1) csk by simp
  have 2: "fila.truncate ?x = r" by (rule truncate_extend)
  have 3: "categoria ?x = c \<and> subcategoria ?x = s \<and> confidence ?x = k"
    by (cases r) (simp add: fila.extend_def fila_clasificada.fields_def)
  show ?case
    using 1 2 3 out(2,3) csk by simp
qed

text \<open>
  What the load does when at least one row is left after the noise filter (and no
  \<open>intent_name\<close> is a number): the original dataset keeps every input row, in order,
  changed only by the added normalised text; the enriched dataset holds exactly the rows
  of the original whose normalised text is not a member of the noise-word set and is
  longer than 2 characters, each with the classification of that row attached.
\<close>

lemma cargar_y_procesar_datos_con_filas:
  assumes "set columnas_requeridas \<subseteq> set (columns leido)"
    and "\<forall>r \<in> set (rows leido).
           ''intent_name'' \<in> set (columns leido) \<longrightarrow> intent_name r \<noteq> NoTexto"
    and "filter (\<lambda>r. limpiar_texto (user_utterances r) \<notin> set PALABRAS_RUIDO \<and>
                     2 < length (limpiar_texto (user_utterances r))) (rows leido) \<noteq> []"
  shows "\<exists>df df_limpio.
           cargar_y_procesar_datos leido = Inr (df, df_limpio) \<and>
           rows df =
             map (\<lambda>r. r\<lparr>pregunta_limpia := limpiar_texto (user_utterances r)\<rparr>) (rows leido) \<and>
           map fila.truncate (rows df_limpio) =
             filter (\<lambda>r. pregunta_limpia r \<notin> set PALABRAS_RUIDO \<and> 2 < length (pregunta_limpia r))
               (rows df) \<and>
           map (\<lambda>r. Inr (categoria r, subcategoria r, confidence r)) (rows df_limpio) =
             map (\<lambda>r. clasificar_consulta (columns df, r))
               (filter (\<lambda>r. pregunta_limpia r \<notin> set PALABRAS_RUIDO \<and>
                            2 < length (pregunta_limpia r)) (rows df))"
proof -
  let ?df = "\<lparr>columns = asignar_columna ''pregunta_limpia'' (columns leido),
              rows = map (\<lambda>r. r\<lparr>pregunta_limpia := limpiar_texto (user_utterances r)\<rparr>)
                       (rows leido)\<rparr>"
  let ?limpias = "filter no_es_ruido (rows ?df)"
  have faltan: "filter (\<lambda>col. col \<notin> set (columns leido)) columnas_requeridas = []"
    using assms(1) by (auto simp: filter_empty_conv)
  have u: "''user_utterances'' \<in> set (columns ?df)"
    using assms(1) by (auto simp: columnas_requeridas_def asignar_columna_def)
  have i: "\<forall>r \<in> set ?limpias. ''intent_name'' \<in> set (columns ?df) \<longrightarrow> intent_name r \<noteq> NoTexto"
    using assms(2) by (auto simp: asignar_columna_def split: if_splits)
  have quedan: "?limpias \<noteq> []"
    using assms(3) by (auto simp: filter_empty_conv no_es_ruido_def)
  obtain out where out: "clasificar_filas (columns ?df) ?limpias = Inr out"
      "map fila.truncate out = ?limpias"
      "map (\<lambda>r. Inr (categoria r, subcategoria r, confidence r)) out =
         map (\<lambda>r. clasificar_consulta (columns ?df, r)) ?limpias"
    using clasificar_filas_ok[OF u i] by (elim exE conjE)
  let ?dl = "\<lparr>columns =
                asignar_columna ''confidence''
                  (asignar_columna ''subcategoria''
                    (asignar_columna ''categoria'' (columns ?df))),
              rows = out\<rparr>"
  have carga: "cargar_y_procesar_datos leido = Inr (?df, ?dl)"
    using faltan quedan out(1) by (simp add: cargar_y_procesar_datos_def Let_def)
  have ruido: "no_es_ruido = (\<lambda>r :: fila. pregunta_limpia r \<notin> set PALABRAS_RUIDO \<and>
      2 < length (pregunta_limpia r))"
    by (rule ext) (simp add: no_es_ruido_def)
  show ?thesis
    using carga out(2,3) unfolding ruido
    by (intro exI[of _ ?df] exI[of _ ?dl] conjI) simp_all
qed

text \<open>
  C5 holds on every load that leaves a row (the lemma above) and fails on the code when
  the noise filter leaves none. In the load below the two utterances normalise to \<open>ok\<close>
  and \<open>si\<close>, both noise. The claim keeps both rows in the original dataset and none in
  the enriched one; the code returns neither dataset: the classification of a dataset
  without rows has no \<open>tolist\<close>, and the load raises \<open>AttributeError\<close>. The guard
  \<open>if df_limpio.empty\<close> of the caller, written for this very load, is never reached.
\<close>

theorem cargar_y_procesar_datos_todo_ruido:
  "columns leido_ruido = [''conversation_name'', ''turn_position'', ''user_utterances''] \<and>
   map user_utterances (rows leido_ruido) = [Str ''Ok'', Str ''si!''] \<and>
   map (\<lambda>r. limpiar_texto (user_utterances r)) (rows leido_ruido) = [''ok'', ''si''] \<and>
   cargar_y_procesar_datos leido_ruido = Inl AttributeError"
proof -
  have "columns leido_ruido = [''conversation_name'', ''turn_position'', ''user_utterances'']"
    by (simp add: leido_ruido_def)
  moreover have "map user_utterances (rows leido_ruido) = [Str ''Ok'', Str ''si!'']"
    by (simp add: leido_ruido_def fila_ejemplo_def)
  moreover have "map (\<lambda>r. limpiar_texto (user_utterances r)) (rows leido_ruido) =
      [''ok'', ''si'']"
    by code_simp
  moreover have "cargar_y_procesar_datos leido_ruido = Inl AttributeError" by code_simp
  ultimately show ?thesis by (intro conjI)
qed


section \<open>The metrics aggregator\<close>

text \<open>
  C6. On an empty dataset the metrics aggregator returns the empty result (the empty
  dictionary of the source, \<open>None\<close> here); it raises nothing.
\<close>

theorem calcular_metricas_conversacion_vacio:
  "df_empty df \<Longrightarrow> calcular_metricas_conversacion df = None"
  by (simp add: calcular_metricas_conversacion_def)

theorem calcular_metricas_conversacion_vacio_witness:
  "df_empty df_vacio \<and> calcular_metricas_conversacion df_vacio = None"
proof -
  have a: "df_empty df_vacio" by (simp add: df_empty_def df_vacio_def)
  show ?thesis using calcular_metricas_conversacion_vacio[OF a] a by simp
qed


section \<open>The filter layer\<close>


lemma maximo_Max: "xs \<noteq> [] \<Longrightarrow> maximo xs = Some (Max (set xs))"
proof (cases xs)
  case Nil
  assume "xs \<noteq> []"
  with Nil show ?thesis by simp
next
  case (Cons x ys)
  have "Max (set (x # ys)) = fold max ys x" by (rule Max.set_eq_fold)
  then show ?thesis using Cons by (simp del: set_simps)
qed

lemma claves_filtradas:
  "map fst (filter (\<lambda>(k, m). P m) (map (\<lambda>k. (k, f k)) ks)) = filter (\<lambda>k. P (f k)) ks"
  by (induction ks) auto

lemma max_turnos_por_conversacion_eq:
  "max_turnos_por_conversacion rs =
     map (\<lambda>k. (k, maximo (map turn_position (filter (\<lambda>r. conversation_name r = k) rs))))
       (sort (remdups (map conversation_name rs)))"
  by (simp add: max_turnos_por_conversacion_def grupos_def comp_def)

lemma conversaciones_validas_eq:
  "set (map fst (filter (\<lambda>(k, m). case m of None \<Rightarrow> False | Some t \<Rightarrow> t \<ge> turnos_min)
                   (max_turnos_por_conversacion (rows df)))) =
   set (conversaciones_con_minimo df turnos_min)"
proof -
  have grupo: "maximo (map turn_position (filter (\<lambda>r. conversation_name r = k) (rows df))) =
      Some (max_turns df k)" if "k \<in> set (map conversation_name (rows df))" for k
  proof -
    have "filter (\<lambda>r. conversation_name r = k) (rows df) \<noteq> []"
      using that by (auto simp: filter_empty_conv)
    then show ?thesis by (simp add: maximo_Max max_turns_def)
  qed
  have "set (map fst (filter (\<lambda>(k, m). case m of None \<Rightarrow> False | Some t \<Rightarrow> t \<ge> turnos_min)
                   (max_turnos_por_conversacion (rows df)))) =
      {k \<in> set (map conversation_name (rows df)).
         case maximo (map turn_position (filter (\<lambda>r. conversation_name r = k) (rows df))) of
           None \<Rightarrow> False | Some t \<Rightarrow> t \<ge> turnos_min}"
    unfolding max_turnos_por_conversacion_eq claves_filtradas by simp
  also have "\<dots> = {k \<in> set (map conversation_name (rows df)). max_turns df k \<ge> turnos_min}"
    using grupo by auto
  also have "\<dots> = set (conversaciones_con_minimo df turnos_min)"
    by (simp add: conversaciones_con_minimo_def)
  finally show ?thesis .
qed

text \<open>
  C1, amended. \<open>aplicar_filtros\<close> receives one dataset. It computes each conversation's
  greatest turn position from that dataset, selects the conversations that reach the
  minimum, and keeps the category and subcategory filtered rows of the same dataset
  whose conversation is selected: it is the specified filter with the dataset it
  receives in the place of the original one. The application passes it the enriched
  (noise-filtered) dataset of the load.

  The right-hand side \<open>filtro_spec\<close> follows the specification: equality filters
  with the sentinel \<open>Todas\<close>, and the conversations whose \<open>max_turns\<close> in the second
  dataset meets the minimum.
\<close>

theorem aplicar_filtros_sobre_su_argumento:
  "aplicar_filtros df c s m = filtro_spec df df c s m \<and>
   (main_exploracion leido c s m = Inr salida \<longrightarrow>
      (\<exists>df_original df_limpio.
         cargar_y_procesar_datos leido = Inr (df_original, df_limpio) \<and>
         salida = filtro_spec df_limpio df_limpio c s m))"
proof (intro conjI impI)
  show eq: "aplicar_filtros df c s m = filtro_spec df df c s m" for df c s m
    unfolding aplicar_filtros_def filtro_spec_def Let_def conversaciones_validas_eq
    by (auto intro: filter_cong)
  assume a: "main_exploracion leido c s m = Inr salida"
  then obtain d0 l where ol: "cargar_y_procesar_datos leido = Inr (d0, l)"
    by (auto simp: main_exploracion_def split: sum.splits)
  then have "salida = aplicar_filtros l c s m"
    using a by (auto simp: main_exploracion_def render_exploracion_datos_def split: if_splits)
  then show "\<exists>df_original df_limpio.
         cargar_y_procesar_datos leido = Inr (df_original, df_limpio) \<and>
         salida = filtro_spec df_limpio df_limpio c s m"
    using ol eq by blast
qed

theorem aplicar_filtros_sobre_su_argumento_witness:
  "main_exploracion leido_turnos ''Todas'' ''Todas'' 2 =
     Inr (filtro_spec limpio_turnos limpio_turnos ''Todas'' ''Todas'' 2) \<and>
   map conversation_name (rows (filtro_spec limpio_turnos limpio_turnos ''Todas'' ''Todas'' 2)) =
     [''B'', ''B'']"
proof -
  have b: "cargar_y_procesar_datos leido_turnos = Inr (original_turnos, limpio_turnos)"
    by code_simp
  have v: "\<not> df_empty limpio_turnos" by code_simp
  have e: "main_exploracion leido_turnos ''Todas'' ''Todas'' 2 =
      Inr (aplicar_filtros limpio_turnos ''Todas'' ''Todas'' 2)"
    using b v by (simp add: main_exploracion_def render_exploracion_datos_def)
  obtain d0 l where ol: "cargar_y_procesar_datos leido_turnos = Inr (d0, l)"
      "aplicar_filtros limpio_turnos ''Todas'' ''Todas'' 2 = filtro_spec l l ''Todas'' ''Todas'' 2"
    using aplicar_filtros_sobre_su_argumento[of limpio_turnos "''Todas''" "''Todas''" 2
        leido_turnos "aplicar_filtros limpio_turnos ''Todas'' ''Todas'' 2"] e
    by blast
  then have "l = limpio_turnos" using b by simp
  then have 1: "main_exploracion leido_turnos ''Todas'' ''Todas'' 2 =
     Inr (filtro_spec limpio_turnos limpio_turnos ''Todas'' ''Todas'' 2)"
    using e ol(2) by simp
  have 2: "map conversation_name
      (rows (filtro_spec limpio_turnos limpio_turnos ''Todas'' ''Todas'' 2)) = [''B'', ''B'']"
    by code_simp
  show ?thesis using 1 2 by (intro conjI)
qed

text \<open>
  C1, as stated, fails. In the load below conversation \<open>A\<close> has turns 1 and 2 and the
  utterance at turn 2 (\<open>ok\<close>) is noise. With a minimum of 2 turns the filter of the code,
  called on the enriched dataset as the application does, drops conversation \<open>A\<close>
  (its greatest turn there is 1), while the filter evaluated against the original
  dataset keeps its row.
\<close>

theorem filtro_turnos_counterexample:
  "cargar_y_procesar_datos leido_turnos = Inr (original_turnos, limpio_turnos) \<and>
   map conversation_name (rows (aplicar_filtros limpio_turnos ''Todas'' ''Todas'' 2)) =
     [''B'', ''B''] \<and>
   map conversation_name (rows (filtro_spec limpio_turnos original_turnos ''Todas'' ''Todas'' 2)) =
     [''A'', ''B'', ''B'']"
proof -
  have "cargar_y_procesar_datos leido_turnos = Inr (original_turnos, limpio_turnos)"
    by code_simp
  moreover have "map conversation_name
      (rows (aplicar_filtros limpio_turnos ''Todas'' ''Todas'' 2)) = [''B'', ''B'']"
    by code_simp
  moreover have "map conversation_name
      (rows (filtro_spec limpio_turnos original_turnos ''Todas'' ''Todas'' 2)) =
      [''A'', ''B'', ''B'']"
    by code_simp
  ultimately show ?thesis by (intro conjI)
qed


section \<open>The most frequent questions\<close>

lemma set_primeras: "set (primeras xs) = set xs"
  by (induction xs) auto

lemma distinct_primeras: "distinct (primeras xs)"
  by (induction xs) auto

lemma antes_nth:
  assumes "i < j" and "j < length xs"
  shows "antes xs (xs ! i) (xs ! j)"
proof -
  let ?ys = "drop (Suc i) xs"
  let ?k = "j - Suc i"
  have 1: "xs = take i xs @ xs ! i # ?ys"
    using assms by (simp add: id_take_nth_drop)
  have k: "?k < length ?ys" using assms by simp
  have kj: "?ys ! ?k = xs ! j" using assms by simp
  have 2: "?ys = take ?k ?ys @ ?ys ! ?k # drop (Suc ?k) ?ys"
    using k by (rule id_take_nth_drop)
  have "xs = take i xs @ xs ! i # take ?k ?ys @ xs ! j # drop (Suc ?k) ?ys"
    using 1 2 kj by metis
  then show ?thesis unfolding antes_def by blast
qed

lemma antes_filter: "antes xs a b \<Longrightarrow> P a \<Longrightarrow> P b \<Longrightarrow> antes (filter P xs) a b"
proof -
  assume "antes xs a b" and pa: "P a" and pb: "P b"
  then obtain us vs ws where "xs = us @ a # vs @ b # ws" unfolding antes_def by blast
  then have "filter P xs = filter P us @ a # filter P vs @ b # filter P ws"
    using pa pb by simp
  then show ?thesis unfolding antes_def by blast
qed

lemma filter_eq_append_Cons:
  "filter P xs = us @ a # rest \<Longrightarrow> \<exists>xs1 xs2. xs = xs1 @ a # xs2 \<and> filter P xs2 = rest"
proof (induction xs arbitrary: us)
  case Nil
  then show ?case by simp
next
  case (Cons x xs)
  show ?case
  proof (cases "P x")
    case True
    show ?thesis
    proof (cases us)
      case Nil
      then have "x = a" "filter P xs = rest" using Cons.prems True by simp_all
      then have "x # xs = [] @ a # xs \<and> filter P xs = rest" by simp
      then show ?thesis by blast
    next
      case (Cons u us')
      then have "filter P xs = us' @ a # rest" using Cons.prems True by simp
      then obtain xs1 xs2 where "xs = xs1 @ a # xs2" "filter P xs2 = rest"
        using Cons.IH by blast
      then have "x # xs = (x # xs1) @ a # xs2 \<and> filter P xs2 = rest" by simp
      then show ?thesis by blast
    qed
  next
    case False
    then have "filter P xs = us @ a # rest" using Cons.prems by simp
    then obtain xs1 xs2 where "xs = xs1 @ a # xs2" "filter P xs2 = rest"
      using Cons.IH by blast
    then have "x # xs = (x # xs1) @ a # xs2 \<and> filter P xs2 = rest" by simp
    then show ?thesis by blast
  qed
qed

lemma antes_filter_D:
  assumes "antes (filter P xs) a b"
  shows "antes xs a b"
proof -
  from assms obtain us vs ws where e: "filter P xs = us @ a # vs @ b # ws"
    unfolding antes_def by (elim exE)
  from filter_eq_append_Cons[OF e]
  obtain xs1 xs2 where 1: "xs = xs1 @ a # xs2" and f2: "filter P xs2 = vs @ b # ws"
    by (elim exE conjE)
  from filter_eq_append_Cons[OF f2]
  obtain ys1 ys2 where 2: "xs2 = ys1 @ b # ys2"
    by (elim exE conjE)
  have "xs = xs1 @ a # ys1 @ b # ys2" using 1 2 by simp
  then show ?thesis unfolding antes_def by blast
qed

lemma antes_sort_key:
  assumes "antes (sort_key f xs) a b" and "f a = f b"
  shows "antes xs a b"
proof -
  have "antes (filter (\<lambda>y. f y = f a) (sort_key f xs)) a b"
    using assms by (intro antes_filter) simp_all
  then have "antes (filter (\<lambda>y. f y = f a) xs) a b"
    by (simp only: sort_key_stable)
  then show ?thesis by (rule antes_filter_D)
qed

lemma map_eq_append_Cons:
  "map g xs = us @ a' # rest \<Longrightarrow> \<exists>xs1 a xs2. xs = xs1 @ a # xs2 \<and> g a = a' \<and> map g xs2 = rest"
proof (induction xs arbitrary: us)
  case Nil
  then show ?case by simp
next
  case (Cons x xs)
  show ?case
  proof (cases us)
    case Nil
    then have "g x = a'" "map g xs = rest" using Cons.prems by simp_all
    then have "x # xs = [] @ x # xs \<and> g x = a' \<and> map g xs = rest" by simp
    then show ?thesis by blast
  next
    case (Cons u us')
    then have "map g xs = us' @ a' # rest" using Cons.prems by simp
    from Cons.IH[OF this] obtain xs1 a xs2 where
      "xs = xs1 @ a # xs2" "g a = a'" "map g xs2 = rest"
      by (elim exE conjE)
    then have "x # xs = (x # xs1) @ a # xs2 \<and> g a = a' \<and> map g xs2 = rest" by simp
    then show ?thesis by blast
  qed
qed

lemma antes_map:
  assumes "antes (map g xs) a' b'"
  shows "\<exists>a b. a' = g a \<and> b' = g b \<and> antes xs a b"
proof -
  from assms obtain us vs ws where e: "map g xs = us @ a' # vs @ b' # ws"
    unfolding antes_def by (elim exE)
  from map_eq_append_Cons[OF e]
  obtain xs1 a xs2 where 1: "xs = xs1 @ a # xs2" and ga: "g a = a'"
      and m2: "map g xs2 = vs @ b' # ws"
    by (elim exE conjE)
  from map_eq_append_Cons[OF m2]
  obtain ys1 b ys2 where 2: "xs2 = ys1 @ b # ys2" and gb: "g b = b'"
    by (elim exE conjE)
  have "xs = xs1 @ a # ys1 @ b # ys2" using 1 2 by simp
  then have "antes xs a b" unfolding antes_def by blast
  then show ?thesis using ga gb by blast
qed

lemma antes_set: "antes xs a b \<Longrightarrow> a \<in> set xs \<and> b \<in> set xs"
  unfolding antes_def by auto

lemma antes_Cons: "antes (x # ys) a b \<Longrightarrow> (a = x \<and> b \<in> set ys) \<or> antes ys a b"
proof -
  assume "antes (x # ys) a b"
  then obtain us vs ws where e: "x # ys = us @ a # vs @ b # ws" unfolding antes_def by blast
  show ?thesis
  proof (cases us)
    case Nil
    then show ?thesis using e by auto
  next
    case (Cons u us')
    then have "ys = us' @ a # vs @ b # ws" using e by simp
    then show ?thesis unfolding antes_def by blast
  qed
qed

lemma antes_primeras:
  "antes (primeras xs) a b \<Longrightarrow> primera_posicion xs a < primera_posicion xs b"
proof (induction xs)
  case Nil
  then show ?case by (simp add: antes_def)
next
  case (Cons x xs)
  let ?F = "filter (\<lambda>y. y \<noteq> x) (primeras xs)"
  have h: "antes (x # ?F) a b" using Cons.prems by simp
  from antes_Cons[OF h] show ?case
  proof (elim disjE conjE)
    assume ax: "a = x" and "b \<in> set ?F"
    then have "b \<noteq> x" by simp
    then show ?thesis using ax by (simp add: primera_posicion_def)
  next
    assume tail: "antes ?F a b"
    have "a \<in> set ?F" "b \<in> set ?F" using antes_set[OF tail] by simp_all
    then have ne: "a \<noteq> x" "b \<noteq> x" by simp_all
    have "antes (primeras xs) a b" using tail by (rule antes_filter_D)
    then have "primera_posicion xs a < primera_posicion xs b" by (rule Cons.IH)
    then show ?thesis using ne by (simp add: primera_posicion_def)
  qed
qed

lemma value_counts_set:
  "set (value_counts qs) = (\<lambda>v. (v, count_list qs v)) ` set qs"
  by (simp add: value_counts_def set_primeras)

lemma value_counts_distinct: "distinct (map fst (value_counts qs))"
proof -
  have "distinct (map (\<lambda>v. (v, count_list qs v)) (primeras qs))"
    by (simp add: distinct_map distinct_primeras inj_on_def)
  then have "distinct (value_counts qs)" by (simp add: value_counts_def)
  moreover have "inj_on fst (set (value_counts qs))"
    unfolding value_counts_set by (auto simp: inj_on_def)
  ultimately show ?thesis by (simp add: distinct_map)
qed

lemma value_counts_sorted: "sorted_wrt (\<lambda>a b. snd b \<le> snd a) (value_counts qs)"
proof -
  let ?key = "\<lambda>(v, n). - int n :: int"
  have "sorted (map ?key (value_counts qs))"
    unfolding value_counts_def by (rule sorted_sort_key)
  then have "sorted_wrt (\<lambda>a b. ?key a \<le> ?key b) (value_counts qs)"
    by (simp add: sorted_map)
  then show ?thesis
    by (rule sorted_wrt_mono_rel[rotated]) (auto split: prod.splits)
qed

lemma value_counts_empates:
  assumes "i < j" and "j < length (value_counts qs)"
    and "snd (value_counts qs ! i) = snd (value_counts qs ! j)"
  shows "primera_posicion qs (fst (value_counts qs ! i)) <
         primera_posicion qs (fst (value_counts qs ! j))"
proof -
  let ?vc = "value_counts qs"
  let ?key = "\<lambda>(v, n). - int n :: int"
  let ?g = "\<lambda>v. (v, count_list qs v)"
  have "antes ?vc (?vc ! i) (?vc ! j)" using assms(1,2) by (rule antes_nth)
  moreover have "?key (?vc ! i) = ?key (?vc ! j)"
    using assms(3) by (simp add: case_prod_unfold)
  ultimately have "antes (map ?g (primeras qs)) (?vc ! i) (?vc ! j)"
    unfolding value_counts_def by (rule antes_sort_key)
  from antes_map[OF this]
  obtain a b where ab: "?vc ! i = ?g a" "?vc ! j = ?g b" "antes (primeras qs) a b"
    by (elim exE conjE)
  from antes_primeras[OF ab(3)] show ?thesis using ab(1,2) by simp
qed


lemma filas_faqs_con_filas:
  assumes "filtrar_saludos \<longrightarrow> rows df \<noteq> []"
  shows "filas_faqs df filtrar_saludos =
           Inr (if filtrar_saludos
                then filter (\<lambda>r. categoria r \<noteq> ''Interacciones Generales'')
                       (filter (\<lambda>r. \<not> es_saludo_basico (Str (pregunta_limpia r))) (rows df))
                else rows df)"
  using assms by (simp add: filas_faqs_def)

lemma obtener_top_preguntas_head:
  assumes "filas_faqs df f = Inr filas"
  shows "\<exists>resultado. obtener_top_preguntas df n f = Inr resultado \<and>
           map snd resultado = py_head n (value_counts (map pregunta_limpia filas)) \<and>
           map fst resultado = [1 ..< length resultado + 1]"
proof -
  let ?t = "py_head n (value_counts (map pregunta_limpia filas))"
  let ?r = "zip [1 ..< length ?t + 1] ?t"
  have top: "obtener_top_preguntas df n f = Inr ?r"
    unfolding obtener_top_preguntas_def Let_def assms by simp
  have len: "length [1 ..< length ?t + 1] = length ?t"
    by (simp only: length_upt add_diff_cancel_right')
  have 1: "map snd ?r = ?t"
    using len by (rule map_snd_zip)
  have 2: "length ?r = length ?t"
    using len by (simp only: length_zip min.idem)
  have "map fst ?r = [1 ..< length ?t + 1]"
    using len by (simp only: map_fst_zip)
  then have 3: "map fst ?r = [1 ..< length ?r + 1]"
    by (simp only: 2)
  show ?thesis using top 1 3 by (intro exI[of _ ?r] conjI)
qed

text \<open>
  C8, as stated for every \<open>n\<close>, fails: with \<open>n = -1\<close> the operation does not return the
  first \<open>n\<close> groups of the ranking (there are none to return), it returns all the groups
  but the last one, as \<open>head\<close> does with a negative count. The dataset has six rows and
  four distinct texts.
\<close>

theorem obtener_top_preguntas_negativo_counterexample:
  "map pregunta_limpia (rows df_preguntas) =
     [''horario'', ''precio'', ''hola'', ''precio'', ''tienen descuento'', ''horario''] \<and>
   value_counts (map pregunta_limpia (rows df_preguntas)) =
     [(''horario'', 2), (''precio'', 2), (''hola'', 1), (''tienen descuento'', 1)] \<and>
   take (nat (- 1)) (value_counts (map pregunta_limpia (rows df_preguntas))) = [] \<and>
   obtener_top_preguntas df_preguntas (- 1) False =
     Inr [(1, ''horario'', 2), (2, ''precio'', 2), (3, ''hola'', 1)]"
proof -
  have "map pregunta_limpia (rows df_preguntas) =
     [''horario'', ''precio'', ''hola'', ''precio'', ''tienen descuento'', ''horario'']"
    by code_simp
  moreover have "value_counts (map pregunta_limpia (rows df_preguntas)) =
     [(''horario'', 2), (''precio'', 2), (''hola'', 1), (''tienen descuento'', 1)]"
    by code_simp
  moreover have "take (nat (- 1)) (value_counts (map pregunta_limpia (rows df_preguntas))) = []"
    by simp
  moreover have "obtener_top_preguntas df_preguntas (- 1) False =
     Inr [(1, ''horario'', 2), (2, ''precio'', 2), (3, ''hola'', 1)]"
    by code_simp
  ultimately show ?thesis by (intro conjI)
qed

text \<open>
  C8, amended. Take a dataset with at least one row (or the greeting filter off), and
  let the rows considered be all its rows, or, with the greeting filter on, those whose
  normalised text is not a basic greeting and whose category is not
  \<open>Interacciones Generales\<close>. The value counts of their normalised texts hold each
  distinct text once, with the number of its occurrences, in descending order of that
  number, and of two texts with the same number the one that appears first in the rows
  comes first. For every \<open>n\<close> the operation returns, numbered from 1, the first \<open>n\<close>
  entries of the value counts when \<open>n\<close> is not negative, and all but the last \<open>-n\<close>
  entries when it is. The result is a function of the dataset, \<open>n\<close> and the greeting flag
  alone.
\<close>

theorem obtener_top_preguntas_ranking:
  assumes "filtrar_saludos \<longrightarrow> rows df \<noteq> []"
    and "qs = map pregunta_limpia
                (if filtrar_saludos
                 then filter (\<lambda>r. categoria r \<noteq> ''Interacciones Generales'')
                        (filter (\<lambda>r. \<not> es_saludo_basico (Str (pregunta_limpia r))) (rows df))
                 else rows df)"
    and "vc = value_counts qs"
  shows "\<exists>resultado.
           obtener_top_preguntas df n filtrar_saludos = Inr resultado \<and>
           map snd resultado =
             (if 0 \<le> n then take (nat n) vc else take (length vc - nat (- n)) vc) \<and>
           map fst resultado = [1 ..< length resultado + 1] \<and>
           set (map fst vc) = set qs \<and>
           distinct (map fst vc) \<and>
           (\<forall>(q, c) \<in> set vc. c = count_list qs q) \<and>
           sorted_wrt (\<lambda>a b. snd b \<le> snd a) vc \<and>
           (\<forall>i j. i < j \<longrightarrow> j < length vc \<longrightarrow> snd (vc ! i) = snd (vc ! j) \<longrightarrow>
              primera_posicion qs (fst (vc ! i)) < primera_posicion qs (fst (vc ! j)))"
proof -
  let ?filas = "if filtrar_saludos
                then filter (\<lambda>r. categoria r \<noteq> ''Interacciones Generales'')
                       (filter (\<lambda>r. \<not> es_saludo_basico (Str (pregunta_limpia r))) (rows df))
                else rows df"
  have filas: "filas_faqs df filtrar_saludos = Inr ?filas"
    using assms(1) by (rule filas_faqs_con_filas)
  have vc: "value_counts (map pregunta_limpia ?filas) = vc"
    unfolding assms(3) assms(2) by (rule refl)
  obtain resultado where r: "obtener_top_preguntas df n filtrar_saludos = Inr resultado"
      and 1: "map snd resultado = py_head n (value_counts (map pregunta_limpia ?filas))"
      and 2: "map fst resultado = [1 ..< length resultado + 1]"
    using obtener_top_preguntas_head[OF filas, of n] by (elim exE conjE)
  have 1: "map snd resultado =
      (if 0 \<le> n then take (nat n) vc else take (length vc - nat (- n)) vc)"
    using 1 unfolding vc by (simp only: py_head_def)
  have 3: "set (map fst vc) = set qs"
    unfolding assms(3) by (simp add: value_counts_set image_image)
  have 4: "distinct (map fst vc)"
    unfolding assms(3) by (rule value_counts_distinct)
  have 5: "\<forall>(q, c) \<in> set vc. c = count_list qs q"
    unfolding assms(3) value_counts_set by simp
  have 6: "sorted_wrt (\<lambda>a b. snd b \<le> snd a) vc"
    unfolding assms(3) by (rule value_counts_sorted)
  have 7: "\<forall>i j. i < j \<longrightarrow> j < length vc \<longrightarrow> snd (vc ! i) = snd (vc ! j) \<longrightarrow>
            primera_posicion qs (fst (vc ! i)) < primera_posicion qs (fst (vc ! j))"
    unfolding assms(3) by (intro allI impI) (rule value_counts_empates)
  show ?thesis using r 1 2 3 4 5 6 7 by (intro exI[of _ resultado] conjI)
qed

theorem obtener_top_preguntas_ranking_witness:
  "rows df_preguntas \<noteq> [] \<and>
   map pregunta_limpia
     (filter (\<lambda>r. categoria r \<noteq> ''Interacciones Generales'')
        (filter (\<lambda>r. \<not> es_saludo_basico (Str (pregunta_limpia r))) (rows df_preguntas))) =
     [''horario'', ''precio'', ''precio'', ''tienen descuento'', ''horario''] \<and>
   value_counts [''horario'', ''precio'', ''precio'', ''tienen descuento'', ''horario''] =
     [(''horario'', 2), (''precio'', 2), (''tienen descuento'', 1)] \<and>
   obtener_top_preguntas df_preguntas 2 True = Inr [(1, ''horario'', 2), (2, ''precio'', 2)] \<and>
   (\<exists>resultado. obtener_top_preguntas df_preguntas 2 True = Inr resultado \<and>
      map snd resultado =
        take 2 [(''horario'', 2), (''precio'', 2), (''tienen descuento'', 1)])"
proof -
  have a: "rows df_preguntas \<noteq> []" by (simp add: df_preguntas_def)
  then have a': "True \<longrightarrow> rows df_preguntas \<noteq> []" by simp
  have b: "map pregunta_limpia
     (filter (\<lambda>r. categoria r \<noteq> ''Interacciones Generales'')
        (filter (\<lambda>r. \<not> es_saludo_basico (Str (pregunta_limpia r))) (rows df_preguntas))) =
     [''horario'', ''precio'', ''precio'', ''tienen descuento'', ''horario'']"
    by code_simp
  then have b': "[''horario'', ''precio'', ''precio'', ''tienen descuento'', ''horario''] =
      map pregunta_limpia
        (if True
         then filter (\<lambda>r. categoria r \<noteq> ''Interacciones Generales'')
                (filter (\<lambda>r. \<not> es_saludo_basico (Str (pregunta_limpia r)))
                   (rows df_preguntas))
         else rows df_preguntas)"
    by simp
  have c: "value_counts [''horario'', ''precio'', ''precio'', ''tienen descuento'', ''horario''] =
     [(''horario'', 2), (''precio'', 2), (''tienen descuento'', 1)]"
    by code_simp
  have d: "obtener_top_preguntas df_preguntas 2 True =
      Inr [(1, ''horario'', 2), (2, ''precio'', 2)]"
    by code_simp
  obtain resultado where r: "obtener_top_preguntas df_preguntas 2 True = Inr resultado"
      and s: "map snd resultado =
        (if (0 :: int) \<le> 2
         then take (nat 2) [(''horario'', 2), (''precio'', 2), (''tienen descuento'', 1)]
         else take (length [(''horario'', 2 :: nat), (''precio'', 2), (''tienen descuento'', 1)]
                      - nat (- 2))
                [(''horario'', 2), (''precio'', 2), (''tienen descuento'', 1)])"
    using obtener_top_preguntas_ranking[OF a' b' c[symmetric], of 2] by (elim exE conjE)
  have "map snd resultado = take 2 [(''horario'', 2), (''precio'', 2), (''tienen descuento'', 1)]"
    using s by simp
  then have e: "\<exists>resultado. obtener_top_preguntas df_preguntas 2 True = Inr resultado \<and>
      map snd resultado =
        take 2 [(''horario'', 2), (''precio'', 2), (''tienen descuento'', 1)]"
    using r by (intro exI[of _ resultado] conjI)
  show ?thesis using a b c d e by (intro conjI)
qed

end
